theory Spec2Isabelle
  imports Complex_Main "HOL-Library.Multiset"
begin

section \<open>Errors and tensors\<close>

text \<open>
  Every exception that a statement of \<^verbatim>\<open>nets.py\<close> can raise is a value of \<open>error\<close>; a
  method returns \<open>error + 'a\<close>, with \<open>Inl\<close> for the exception.

  \<^item> \<open>KeyError\<close>: a dictionary lookup of an absent key (the specification's
    UnknownIdentity);
  \<^item> \<open>IndexError\<close>: an embedding index outside the table;
  \<^item> \<open>TypeError\<close>: \<^verbatim>\<open>torch.tensor(None, dtype=torch.float32)\<close>;
  \<^item> \<open>ValueError\<close>: \<^verbatim>\<open>torch.tensor\<close> on a ragged nested list;
  \<^item> \<open>RuntimeError\<close>: every shape or dtype check of a tensor operation.
\<close>

datatype error = KeyError | IndexError | TypeError | ValueError | RuntimeError

text \<open>
  A float tensor of rank one is a list of scalars, one of rank two the list of its rows.
  The scalar type \<open>'a\<close> is the number type of the tensor library: float32 in the
  source, the reals in the specification. \<open>Vec []\<close> is the tensor of shape \<open>(0)\<close> that
  \<^verbatim>\<open>torch.tensor([])\<close> builds. Index tensors keep their own constructors, since
  \<^verbatim>\<open>nn.Embedding\<close> accepts integer tensors only.
\<close>

datatype 'a tensor = is_Vec: Vec (vec_of: "'a list") | is_Mat: Mat (rows_of: "'a list list")

text \<open>
  \<^verbatim>\<open>torch.tensor\<close> on a list of integers: an int64 tensor, except that the empty
  list gives the float32 tensor of shape \<open>(0)\<close>.
\<close>

datatype index_tensor = LongTensor "nat list" | FloatTensor

primrec ncols :: "'a list list \<Rightarrow> nat" where
  "ncols [] = 0"
| "ncols (r # rs) = length r"

primrec tensor_shape :: "'a tensor \<Rightarrow> nat list" where
  "tensor_shape (Vec v) = [length v]"
| "tensor_shape (Mat rows) = [length rows, ncols rows]"

text \<open>
  A matrix handed in by a caller, with its shape written out: \<open>mat_cols\<close> is the width
  of every row, also when there is no row.
\<close>

datatype 'a matrix = Matrix (mat_cols: nat) (mat_rows: "'a list list")

definition bind_err :: "error + 'a \<Rightarrow> ('a \<Rightarrow> error + 'b) \<Rightarrow> error + 'b" where
  "bind_err r f = (case r of Inl e \<Rightarrow> Inl e | Inr v \<Rightarrow> f v)"

section \<open>The arithmetic of the tensor library\<close>

text \<open>
  The source computes with the float32 kernels of the tensor library; the specification
  speaks of real vectors. The scalar kernels that \<^verbatim>\<open>nets.py\<close> calls are therefore a
  parameter of every tensor operation below:

  \<^item> \<open>a_of_real\<close>: the conversion of \<^verbatim>\<open>torch.tensor(..., dtype=torch.float32)\<close>;
  \<^item> \<open>a_add\<close>, \<open>a_mul\<close>: elementwise \<^verbatim>\<open>+\<close> and \<^verbatim>\<open>*\<close>;
  \<^item> \<open>a_relu\<close>: \<^verbatim>\<open>F.relu\<close> on one element;
  \<^item> \<open>a_affine x w b\<close>: one output unit of \<^verbatim>\<open>nn.Linear\<close>, the inner product of the
    input row \<open>x\<close> with the weight row \<open>w\<close>, plus the bias \<open>b\<close>;
  \<^item> \<open>a_softmax\<close>: \<^verbatim>\<open>F.softmax\<close> along one line of a tensor;
  \<^item> \<open>a_sum\<close>: the reduction \<^verbatim>\<open>.sum\<close> along one line of a tensor.
\<close>

record 'a arith =
  a_of_real :: "real \<Rightarrow> 'a"
  a_add :: "'a \<Rightarrow> 'a \<Rightarrow> 'a"
  a_mul :: "'a \<Rightarrow> 'a \<Rightarrow> 'a"
  a_relu :: "'a \<Rightarrow> 'a"
  a_affine :: "'a list \<Rightarrow> 'a list \<Rightarrow> 'a \<Rightarrow> 'a"
  a_softmax :: "'a list \<Rightarrow> 'a list"
  a_sum :: "'a list \<Rightarrow> 'a"

subsection \<open>Exact arithmetic\<close>

text \<open>The kernels over the reals, without rounding: the arithmetic of the specification.\<close>

definition real_arith :: "real arith" where
  "real_arith =
     \<lparr>a_of_real = (\<lambda>x. x),
      a_add = (+),
      a_mul = (*),
      a_relu = (\<lambda>x. max x 0),
      a_affine = (\<lambda>x w b. sum_list (map2 (*) x w) + b),
      a_softmax = (\<lambda>zs. map (\<lambda>z. exp z / sum_list (map exp zs)) zs),
      a_sum = sum_list\<rparr>"

subsection \<open>float32 arithmetic\<close>

text \<open>
  IEEE 754 binary32 with round to nearest, ties to even: a finite value, an infinity or
  NaN. A finite value carries the real number it stands for; the two zeros are not
  told apart. \<open>f32_round\<close> rounds a real to the nearest float32: the unit in the last
  place is \<open>2^(e - 23)\<close> for \<open>2^e \<le> |x| < 2^(e + 1)\<close>, with \<open>e\<close> kept between -126
  (subnormal numbers) and 127, and a result beyond the largest finite value
  \<open>(2^24 - 1) \<cdot> 2^104\<close> is an infinity.
\<close>

datatype f32 = Fin real | PInf | NInf | NaN

definition two_pow :: "int \<Rightarrow> real" where
  "two_pow e = (if 0 \<le> e then 2 ^ nat e else 1 / 2 ^ nat (- e))"

definition f32_exponent :: "real \<Rightarrow> int" where
  "f32_exponent x = max (- 126) (min 127 \<lfloor>log 2 \<bar>x\<bar>\<rfloor>)"

definition half_even :: "real \<Rightarrow> int" where
  "half_even q =
     (let f = \<lfloor>q\<rfloor>; d = q - of_int f
      in if d < 1 / 2 then f else if 1 / 2 < d then f + 1
         else if even f then f else f + 1)"

definition f32_max :: real where
  "f32_max = (2 ^ 24 - 1) * 2 ^ 104"

definition f32_round :: "real \<Rightarrow> f32" where
  "f32_round x =
     (if x = 0 then Fin 0
      else let u = two_pow (f32_exponent x - 23);
               y = of_int (half_even (x / u)) * u
           in if f32_max < y then PInf else if y < - f32_max then NInf else Fin y)"

fun fneg :: "f32 \<Rightarrow> f32" where
  "fneg (Fin x) = Fin (- x)"
| "fneg PInf = NInf"
| "fneg NInf = PInf"
| "fneg NaN = NaN"

fun fadd :: "f32 \<Rightarrow> f32 \<Rightarrow> f32" where
  "fadd (Fin x) (Fin y) = f32_round (x + y)"
| "fadd NaN b = NaN"
| "fadd a NaN = NaN"
| "fadd PInf NInf = NaN"
| "fadd NInf PInf = NaN"
| "fadd PInf b = PInf"
| "fadd a PInf = PInf"
| "fadd NInf b = NInf"
| "fadd a NInf = NInf"

definition fsub :: "f32 \<Rightarrow> f32 \<Rightarrow> f32" where
  "fsub a b = fadd a (fneg b)"

fun fmul :: "f32 \<Rightarrow> f32 \<Rightarrow> f32" where
  "fmul (Fin x) (Fin y) = f32_round (x * y)"
| "fmul NaN b = NaN"
| "fmul a NaN = NaN"
| "fmul PInf (Fin y) = (if y = 0 then NaN else if 0 < y then PInf else NInf)"
| "fmul NInf (Fin y) = (if y = 0 then NaN else if 0 < y then NInf else PInf)"
| "fmul (Fin x) PInf = (if x = 0 then NaN else if 0 < x then PInf else NInf)"
| "fmul (Fin x) NInf = (if x = 0 then NaN else if 0 < x then NInf else PInf)"
| "fmul PInf PInf = PInf"
| "fmul PInf NInf = NInf"
| "fmul NInf PInf = NInf"
| "fmul NInf NInf = PInf"

fun fdiv :: "f32 \<Rightarrow> f32 \<Rightarrow> f32" where
  "fdiv (Fin x) (Fin y) =
     (if y = 0 then (if x = 0 then NaN else if 0 < x then PInf else NInf)
      else f32_round (x / y))"
| "fdiv NaN b = NaN"
| "fdiv a NaN = NaN"
| "fdiv (Fin x) b = Fin 0"
| "fdiv PInf (Fin y) = (if 0 \<le> y then PInf else NInf)"
| "fdiv NInf (Fin y) = (if 0 \<le> y then NInf else PInf)"
| "fdiv a b = NaN"

fun frelu :: "f32 \<Rightarrow> f32" where
  "frelu (Fin x) = Fin (max x 0)"
| "frelu PInf = PInf"
| "frelu NInf = Fin 0"
| "frelu NaN = NaN"

text \<open>
  The exponential, rounded correctly. The library's kernel may differ from it in the
  last bit; it agrees at 0, at the infinities and at NaN.
\<close>

fun fexp :: "f32 \<Rightarrow> f32" where
  "fexp (Fin x) = f32_round (exp x)"
| "fexp PInf = PInf"
| "fexp NInf = Fin 0"
| "fexp NaN = NaN"

fun fmax2 :: "f32 \<Rightarrow> f32 \<Rightarrow> f32" where
  "fmax2 (Fin x) (Fin y) = Fin (max x y)"
| "fmax2 NaN b = NaN"
| "fmax2 a NaN = NaN"
| "fmax2 PInf b = PInf"
| "fmax2 a PInf = PInf"
| "fmax2 NInf b = b"
| "fmax2 a NInf = a"

text \<open>
  Reductions add from left to right, as the library does on the short lines (up to
  three elements) that are evaluated below; the library orders longer reductions in its
  own way. The softmax is the library's \<open>exp (x - max) / sum\<close>.
\<close>

definition fsum :: "f32 list \<Rightarrow> f32" where
  "fsum xs = foldl fadd (Fin 0) xs"

definition fsoftmax :: "f32 list \<Rightarrow> f32 list" where
  "fsoftmax zs =
     (case zs of
        [] \<Rightarrow> []
      | z # rest \<Rightarrow>
          (let m = foldl fmax2 z rest;
               es = map (\<lambda>x. fexp (fsub x m)) zs;
               s = fsum es
           in map (\<lambda>e. fdiv e s) es))"

definition f32_arith :: "f32 arith" where
  "f32_arith =
     \<lparr>a_of_real = f32_round,
      a_add = fadd,
      a_mul = fmul,
      a_relu = frelu,
      a_affine = (\<lambda>x w b. fadd (fsum (map2 fmul x w)) b),
      a_softmax = fsoftmax,
      a_sum = fsum\<rparr>"


section \<open>Tensor operations\<close>

text \<open>
  The argument \<^verbatim>\<open>features\<close> of \<^verbatim>\<open>forward\<close>: \<^verbatim>\<open>None\<close> (the default), a list of
  numbers or a list of lists of numbers. \<^verbatim>\<open>torch.tensor(None, dtype=torch.float32)\<close>
  raises; a ragged nested list raises; \<open>[]\<close> is the tensor of shape \<open>(0)\<close>; every
  number is converted to the scalar type.
\<close>

datatype pyobj = PyNone | PyList1 "real list" | PyList2 "real list list"

fun torch_tensor :: "'a arith \<Rightarrow> pyobj \<Rightarrow> error + 'a tensor" where
  "torch_tensor ar PyNone = Inl TypeError"
| "torch_tensor ar (PyList1 xs) = Inr (Vec (map (a_of_real ar) xs))"
| "torch_tensor ar (PyList2 rows) =
     (if rows = [] then Inr (Vec [])
      else if list_all (\<lambda>r. length r = length (hd rows)) rows
      then Inr (Mat (map (map (a_of_real ar)) rows))
      else Inl ValueError)"

definition torch_tensor_ints :: "nat list \<Rightarrow> index_tensor" where
  "torch_tensor_ints xs = (if xs = [] then FloatTensor else LongTensor xs)"

text \<open>
  \<^verbatim>\<open>nn.Embedding\<close>: a scalar index gathers one row, an index vector gathers the
  rows in its order. An index outside the table raises, and so does an index tensor
  that is not an integer tensor.
\<close>

definition embedding0 :: "'a list list \<Rightarrow> nat \<Rightarrow> error + 'a list" where
  "embedding0 table i = (if i < length table then Inr (table ! i) else Inl IndexError)"

fun embedding1 :: "'a list list \<Rightarrow> index_tensor \<Rightarrow> error + 'a list list" where
  "embedding1 table (LongTensor idx) =
     (if list_all (\<lambda>i. i < length table) idx then Inr (map ((!) table) idx)
      else Inl IndexError)"
| "embedding1 table FloatTensor = Inl RuntimeError"

text \<open>
  \<^verbatim>\<open>torch.cat(ts, dim=-1)\<close>: tensors of shape \<open>(0)\<close> are skipped; the others must
  have one rank and, at rank two, one number of rows; the result appends them along the
  last axis.
\<close>

definition torch_cat :: "'a tensor list \<Rightarrow> error + 'a tensor" where
  "torch_cat ts =
     (let ts' = filter (\<lambda>t. t \<noteq> Vec []) ts in
      if ts' = [] then Inr (Vec [])
      else if list_all is_Vec ts' then Inr (Vec (concat (map vec_of ts')))
      else if list_all is_Mat ts'
              \<and> list_all (\<lambda>t. length (rows_of t) = length (rows_of (hd ts'))) ts'
      then Inr (Mat (map (\<lambda>n. concat (map (\<lambda>t. rows_of t ! n) ts'))
                         [0..<length (rows_of (hd ts'))]))
      else Inl RuntimeError)"

text \<open>
  \<^verbatim>\<open>nn.Linear\<close> and \<^verbatim>\<open>F.linear\<close>: \<open>x W\<^sup>T + b\<close> on the last axis, one call of the
  kernel for each output unit.
\<close>

record 'a linear =
  in_features :: nat
  out_features :: nat
  weight :: "'a list list"
  bias :: "'a list"

definition affine :: "'a arith \<Rightarrow> 'a linear \<Rightarrow> 'a list \<Rightarrow> 'a list" where
  "affine ar lin x = map2 (\<lambda>w b. a_affine ar x w b) (weight lin) (bias lin)"

fun F_linear :: "'a arith \<Rightarrow> 'a linear \<Rightarrow> 'a tensor \<Rightarrow> error + 'a tensor" where
  "F_linear ar lin (Vec x) =
     (if length x = in_features lin then Inr (Vec (affine ar lin x)) else Inl RuntimeError)"
| "F_linear ar lin (Mat rows) =
     (if list_all (\<lambda>r. length r = in_features lin) rows
      then Inr (Mat (map (affine ar lin) rows)) else Inl RuntimeError)"

primrec F_relu :: "'a arith \<Rightarrow> 'a tensor \<Rightarrow> 'a tensor" where
  "F_relu ar (Vec v) = Vec (map (a_relu ar) v)"
| "F_relu ar (Mat rows) = Mat (map (map (a_relu ar)) rows)"

text \<open>
  \<^verbatim>\<open>F.softmax(x, 0)\<close>: along the first axis, so down each column of a matrix: entry
  \<open>(i, j)\<close> of the result is entry \<open>i\<close> of the softmax of column \<open>j\<close>.
\<close>

definition column :: "'a list list \<Rightarrow> nat \<Rightarrow> 'a list" where
  "column rows j = map (\<lambda>r. r ! j) rows"

primrec F_softmax0 :: "'a arith \<Rightarrow> 'a tensor \<Rightarrow> 'a tensor" where
  "F_softmax0 ar (Vec v) = Vec (a_softmax ar v)"
| "F_softmax0 ar (Mat rows) =
     Mat (map (\<lambda>i. map (\<lambda>j. a_softmax ar (column rows j) ! i) [0..<length (rows ! i)])
            [0..<length rows])"

text \<open>
  Broadcasting of an elementwise operation: two sizes agree when they are equal or one
  of them is 1, and the axis of size 1 is repeated. A list of rows without rows carries
  no width; \<^verbatim>\<open>forward\<close> never builds one, and \<^verbatim>\<open>score\<close> takes its matrix with the
  width written out.
\<close>

definition bcast_ok :: "nat \<Rightarrow> nat \<Rightarrow> bool" where
  "bcast_ok m n = (m = n \<or> m = 1 \<or> n = 1)"

definition bcast_row :: "('a \<Rightarrow> 'a \<Rightarrow> 'a) \<Rightarrow> 'a list \<Rightarrow> 'a list \<Rightarrow> 'a list" where
  "bcast_row f a b =
     (if length a = length b then map2 f a b
      else if length b = 1 then map (\<lambda>x. f x (hd b)) a
      else map (f (hd a)) b)"

definition expand_rows :: "'a list list \<Rightarrow> nat \<Rightarrow> 'a list list" where
  "expand_rows A n = (if length A = n then A else replicate n (hd A))"

fun tensor_mul :: "'a arith \<Rightarrow> 'a list list \<Rightarrow> 'a tensor \<Rightarrow> error + 'a list list" where
  "tensor_mul ar A (Vec v) =
     (if bcast_ok (ncols A) (length v) then Inr (map (\<lambda>a. bcast_row (a_mul ar) a v) A)
      else Inl RuntimeError)"
| "tensor_mul ar A (Mat B) =
     (if bcast_ok (length A) (length B) \<and> bcast_ok (ncols A) (ncols B)
      then (let n = (if length A = 1 then length B else length A)
            in Inr (map2 (bcast_row (a_mul ar)) (expand_rows A n) (expand_rows B n)))
      else Inl RuntimeError)"

definition matrix_mul :: "'a arith \<Rightarrow> 'a matrix \<Rightarrow> 'a matrix \<Rightarrow> error + 'a matrix" where
  "matrix_mul ar A B =
     (if bcast_ok (length (mat_rows A)) (length (mat_rows B))
         \<and> bcast_ok (mat_cols A) (mat_cols B)
      then (let n = (if length (mat_rows A) = 1 then length (mat_rows B)
                     else length (mat_rows A));
                k = (if mat_cols A = 1 then mat_cols B else mat_cols A)
            in Inr (Matrix k (map2 (bcast_row (a_mul ar))
                                (expand_rows (mat_rows A) n) (expand_rows (mat_rows B) n))))
      else Inl RuntimeError)"

definition vec_add :: "'a arith \<Rightarrow> 'a list \<Rightarrow> 'a list \<Rightarrow> error + 'a list" where
  "vec_add ar a b =
     (if bcast_ok (length a) (length b) then Inr (bcast_row (a_add ar) a b)
      else Inl RuntimeError)"

text \<open>\<^verbatim>\<open>.sum(0)\<close> reduces each column of a matrix, \<^verbatim>\<open>.sum(1)\<close> each row.\<close>

definition sum0 :: "'a arith \<Rightarrow> 'a list list \<Rightarrow> 'a list" where
  "sum0 ar rows = map (\<lambda>j. a_sum ar (column rows j)) [0..<ncols rows]"

definition sum1 :: "'a arith \<Rightarrow> 'a list list \<Rightarrow> 'a list" where
  "sum1 ar rows = map (a_sum ar) rows"

section \<open>Identity dictionaries\<close>

text \<open>
  \<^verbatim>\<open>
  def _create_dict(array):
      res = dict()
      for i, v in enumerate(array):
          res[v] = i
      return res
  \<close>
  The loop carries the dictionary and the counter of \<^verbatim>\<open>enumerate\<close>; a later
  occurrence of an identity overwrites the index of an earlier one.
\<close>

primrec create_dict_loop :: "('k \<rightharpoonup> nat) \<Rightarrow> nat \<Rightarrow> 'k list \<Rightarrow> ('k \<rightharpoonup> nat)" where
  "create_dict_loop res i [] = res"
| "create_dict_loop res i (v # vs) = create_dict_loop (res(v \<mapsto> i)) (Suc i) vs"

definition create_dict :: "'k list \<Rightarrow> ('k \<rightharpoonup> nat)" where
  "create_dict array = create_dict_loop Map.empty 0 array"

section \<open>FeatureNet\<close>

text \<open>
  The values that the random initialisers leave in the parameters are parameters of the
  constructors: one entry function for each tensor that \<^verbatim>\<open>kaiming_normal_\<close> or the
  default initialisation of \<^verbatim>\<open>nn.Embedding\<close> and \<^verbatim>\<open>nn.Linear\<close> fills.
\<close>

record 'a init_values =
  user_embedding_init :: "nat \<Rightarrow> nat \<Rightarrow> 'a"
  item_embedding_init :: "nat \<Rightarrow> nat \<Rightarrow> 'a"
  l1_weight_init :: "nat \<Rightarrow> nat \<Rightarrow> 'a"
  l2_weight_init :: "nat \<Rightarrow> nat \<Rightarrow> 'a"
  l2_bias_init :: "nat \<Rightarrow> 'a"
  feats_l1_weight_init :: "nat \<Rightarrow> nat \<Rightarrow> 'a"
  feats_l2_weight_init :: "nat \<Rightarrow> nat \<Rightarrow> 'a"

definition tabulate2 :: "nat \<Rightarrow> nat \<Rightarrow> (nat \<Rightarrow> nat \<Rightarrow> 'a) \<Rightarrow> 'a list list" where
  "tabulate2 r c f = map (\<lambda>i. map (f i) [0..<c]) [0..<r]"

text \<open>\<^verbatim>\<open>nn.Linear(i, o)\<close> followed by \<^verbatim>\<open>_kaiming_\<close>: drawn weights, zero bias.\<close>

definition kaiming_linear ::
  "'a arith \<Rightarrow> nat \<Rightarrow> nat \<Rightarrow> (nat \<Rightarrow> nat \<Rightarrow> 'a) \<Rightarrow> 'a linear" where
  "kaiming_linear ar i o' f =
     \<lparr>in_features = i, out_features = o', weight = tabulate2 o' i f,
      bias = replicate o' (a_of_real ar 0)\<rparr>"

record 'a featurenet =
  feats_l1 :: "'a linear"
  feats_l2 :: "'a linear"

definition FeatureNet_init :: "'a arith \<Rightarrow> nat \<Rightarrow> nat \<Rightarrow> 'a init_values \<Rightarrow> 'a featurenet" where
  "FeatureNet_init ar emb_dim' feature_dim iv =
     \<lparr>feats_l1 = kaiming_linear ar (emb_dim' + feature_dim) emb_dim'
                   (feats_l1_weight_init iv),
      feats_l2 = kaiming_linear ar emb_dim' emb_dim' (feats_l2_weight_init iv)\<rparr>"

text \<open>
  \<^verbatim>\<open>
  def forward(self, user, components):
      if len(components.shape) > 1:
          user = user.expand(components.shape[0], -1)
      x = torch.cat([user, components], dim=-1)
      x = self.l1(x); x = F.relu(x)
      x = self.l2(x); x = F.relu(x)
      return x
  \<close>
\<close>

definition FeatureNet_forward ::
  "'a arith \<Rightarrow> 'a featurenet \<Rightarrow> 'a list \<Rightarrow> 'a tensor \<Rightarrow> error + 'a tensor" where
  "FeatureNet_forward ar self user components =
     (let user' = (case components of
                     Mat rows \<Rightarrow> Mat (replicate (length rows) user)
                   | Vec v \<Rightarrow> Vec user)
      in bind_err (torch_cat [user', components]) (\<lambda>x.
         bind_err (F_linear ar (feats_l1 self) x) (\<lambda>x.
         bind_err (F_linear ar (feats_l2 self) (F_relu ar x)) (\<lambda>x.
         Inr (F_relu ar x)))))"

section \<open>UserNet\<close>

record ('u, 'i, 'a) usernet =
  emb_dim :: nat
  user_dict :: "'u \<rightharpoonup> nat"
  item_dict :: "'i \<rightharpoonup> nat"
  feats :: "'a featurenet option"
  user_embedding :: "'a list list"
  item_embedding :: "'a list list"
  l1 :: "'a linear"
  l2 :: "'a linear"

text \<open>
  \<^verbatim>\<open>__init__(self, users, items, emb_dim, feature_dim)\<close>. Only \<^verbatim>\<open>l1\<close> is passed to
  \<^verbatim>\<open>_kaiming_\<close>; \<^verbatim>\<open>l2\<close> keeps the drawn weight and the drawn bias of \<^verbatim>\<open>nn.Linear\<close>.
\<close>

definition UserNet_init ::
  "'a arith \<Rightarrow> 'u list \<Rightarrow> 'i list \<Rightarrow> nat \<Rightarrow> nat \<Rightarrow> 'a init_values \<Rightarrow> ('u, 'i, 'a) usernet" where
  "UserNet_init ar users items emb_dim' feature_dim iv =
     (let num_users = length users;
          num_items = length items;
          feats' = (if feature_dim > 0 then Some (FeatureNet_init ar emb_dim' feature_dim iv)
                    else None);
          f = (if feats' \<noteq> None then 1 else 0 :: nat)
      in \<lparr>emb_dim = emb_dim',
          user_dict = create_dict users,
          item_dict = create_dict items,
          feats = feats',
          user_embedding = tabulate2 num_users emb_dim' (user_embedding_init iv),
          item_embedding = tabulate2 num_items emb_dim' (item_embedding_init iv),
          l1 = kaiming_linear ar ((2 + f) * emb_dim') emb_dim' (l1_weight_init iv),
          l2 = \<lparr>in_features = emb_dim', out_features = 1,
                weight = tabulate2 1 emb_dim' (l2_weight_init iv),
                bias = map (l2_bias_init iv) [0..<1]\<rparr>\<rparr>)"

text \<open>
  \<^verbatim>\<open>_get_user\<close> and \<^verbatim>\<open>_get_items\<close> (here \<open>u_get_user\<close>, \<open>u_get_items\<close>): the
  subscript \<^verbatim>\<open>self.user_dict[user_id]\<close> raises \<^verbatim>\<open>KeyError\<close> on an absent key, and the
  list comprehension raises at the first absent item.
\<close>

definition u_get_user :: "('u, 'i, 'a) usernet \<Rightarrow> 'u \<Rightarrow> error + nat" where
  "u_get_user self user_id =
     (case user_dict self user_id of None \<Rightarrow> Inl KeyError | Some i \<Rightarrow> Inr i)"

primrec lookup_each :: "('k \<rightharpoonup> nat) \<Rightarrow> 'k list \<Rightarrow> error + nat list" where
  "lookup_each d [] = Inr []"
| "lookup_each d (k # ks) =
     (case d k of
        None \<Rightarrow> Inl KeyError
      | Some i \<Rightarrow> bind_err (lookup_each d ks) (\<lambda>js. Inr (i # js)))"

definition u_get_items :: "('u, 'i, 'a) usernet \<Rightarrow> 'i list \<Rightarrow> error + index_tensor" where
  "u_get_items self items =
     bind_err (lookup_each (item_dict self) items) (\<lambda>idx. Inr (torch_tensor_ints idx))"

definition get_items :: "('u, 'i, 'a) usernet \<Rightarrow> 'i list \<Rightarrow> error + 'a list list" where
  "get_items self item_ids =
     bind_err (u_get_items self item_ids) (embedding1 (item_embedding self))"

text \<open>
  Lines 93 to 96 of \<^verbatim>\<open>forward\<close>: the argument \<^verbatim>\<open>torch.tensor(features, ...)\<close> is
  evaluated before \<^verbatim>\<open>self.feats\<close> is called.
  \<^verbatim>\<open>
  if self.feats is not None:
      components = self.feats(user, torch.tensor(features, dtype=torch.float32))
  else:
      components = torch.tensor([])
  \<close>
\<close>

definition forward_components ::
  "'a arith \<Rightarrow> ('u, 'i, 'a) usernet \<Rightarrow> 'a list \<Rightarrow> pyobj \<Rightarrow> error + 'a tensor" where
  "forward_components ar self user features =
     (case feats self of
        Some fn \<Rightarrow> bind_err (torch_tensor ar features) (FeatureNet_forward ar fn user)
      | None \<Rightarrow> Inr (Vec []))"

text \<open>
  Lines 98 to 100: the user row is repeated once for each item row and the three blocks
  are concatenated along the feature axis.
  \<^verbatim>\<open>
  usern = user.expand(items.shape[0], -1)
  x = torch.cat([usern, items, components], dim=-1)
  \<close>
\<close>

definition forward_concat :: "'a list \<Rightarrow> 'a list list \<Rightarrow> 'a tensor \<Rightarrow> error + 'a tensor" where
  "forward_concat user items components =
     (let usern = replicate (length items) user
      in torch_cat [Mat usern, Mat items, components])"

text \<open>
  Lines 102 to 106: the scoring layers and the softmax over the items, which give the
  attention weights.
  \<^verbatim>\<open>
  x = self.l1(x); x = F.relu(x)
  x = self.l2(x); x = F.softmax(x, 0)
  \<close>
\<close>

definition attention_weights ::
  "'a arith \<Rightarrow> ('u, 'i, 'a) usernet \<Rightarrow> 'a tensor \<Rightarrow> error + 'a tensor" where
  "attention_weights ar self x =
     bind_err (F_linear ar (l1 self) x) (\<lambda>x.
     bind_err (F_linear ar (l2 self) (F_relu ar x)) (\<lambda>x.
     Inr (F_softmax0 ar x)))"

text \<open>
  \<^verbatim>\<open>
  def forward(self, user_id, item_ids, features=None):
      user = self.user_embedding(self._get_user(user_id))
      items = self.item_embedding(self._get_items(item_ids))
      ...
      x = user + (items * x).sum(0)
      return x
  \<close>
\<close>

definition forward ::
  "'a arith \<Rightarrow> ('u, 'i, 'a) usernet \<Rightarrow> 'u \<Rightarrow> 'i list \<Rightarrow> pyobj \<Rightarrow> error + 'a list" where
  "forward ar self user_id item_ids features =
     bind_err (u_get_user self user_id) (\<lambda>ui.
     bind_err (embedding0 (user_embedding self) ui) (\<lambda>user.
     bind_err (u_get_items self item_ids) (\<lambda>idx.
     bind_err (embedding1 (item_embedding self) idx) (\<lambda>items.
     bind_err (forward_components ar self user features) (\<lambda>components.
     bind_err (forward_concat user items components) (\<lambda>x.
     bind_err (attention_weights ar self x) (\<lambda>x.
     bind_err (tensor_mul ar items x) (\<lambda>p.
     vec_add ar user (sum0 ar p)))))))))"

text \<open>
  \<^verbatim>\<open>
  @staticmethod
  def score(user, items):
      usern = user.expand(items.shape[0], -1)
      return (usern * items).sum(1)
  \<close>
\<close>

definition score :: "'a arith \<Rightarrow> 'a list \<Rightarrow> 'a matrix \<Rightarrow> error + 'a list" where
  "score ar user items =
     (let usern = Matrix (length user) (replicate (length (mat_rows items)) user)
      in bind_err (matrix_mul ar usern items) (\<lambda>p. Inr (sum1 ar (mat_rows p))))"

section \<open>Calls on the module object\<close>

text \<open>
  The methods once more, as programs on the state that a call can see and change: the
  module object with its attributes, and the global random generator, which is a stream
  of numbers and a position in it. A program reads an attribute (\<open>attr\<close>), assigns to
  the object (\<open>set_attr\<close>), draws from the generator (\<open>draw\<close>), or computes a value
  without touching the state (\<open>lift\<close>); every tensor operation builds a new tensor.
\<close>

record ('u, 'i, 'a) machine =
  obj :: "('u, 'i, 'a) usernet"
  rng :: "nat \<Rightarrow> 'a"
  rng_pos :: nat

type_synonym ('u, 'i, 'a, 'r) prog =
  "('u, 'i, 'a) machine \<Rightarrow> (error + 'r) \<times> ('u, 'i, 'a) machine"

definition lift :: "error + 'r \<Rightarrow> ('u, 'i, 'a, 'r) prog" where
  "lift r = (\<lambda>s. (r, s))"

definition attr :: "(('u, 'i, 'a) usernet \<Rightarrow> 'r) \<Rightarrow> ('u, 'i, 'a, 'r) prog" where
  "attr f = (\<lambda>s. (Inr (f (obj s)), s))"

definition set_attr ::
  "(('u, 'i, 'a) usernet \<Rightarrow> ('u, 'i, 'a) usernet) \<Rightarrow> ('u, 'i, 'a, unit) prog" where
  "set_attr g = (\<lambda>s. (Inr (), s\<lparr>obj := g (obj s)\<rparr>))"

definition draw :: "('u, 'i, 'a, 'a) prog" where
  "draw = (\<lambda>s. (Inr (rng s (rng_pos s)), s\<lparr>rng_pos := Suc (rng_pos s)\<rparr>))"

definition bind_m ::
  "('u, 'i, 'a, 'r) prog \<Rightarrow> ('r \<Rightarrow> ('u, 'i, 'a, 'q) prog) \<Rightarrow> ('u, 'i, 'a, 'q) prog" where
  "bind_m m f = (\<lambda>s. case m s of (Inl e, s') \<Rightarrow> (Inl e, s') | (Inr v, s') \<Rightarrow> f v s')"

text \<open>
  \<^verbatim>\<open>
  def _kaiming_(self, layer):
      nn.init.kaiming_normal_(layer.weight, nonlinearity='relu')
      torch.nn.init.zeros_(layer.bias)
  \<close>
  Both initialisers write into the tensors of the layer; the first draws one number for
  each weight. The layer is named by its attribute and the assignment to it.
\<close>

primrec draw_list :: "nat \<Rightarrow> ('u, 'i, 'a, 'a list) prog" where
  "draw_list 0 = lift (Inr [])"
| "draw_list (Suc n) =
     bind_m draw (\<lambda>x. bind_m (draw_list n) (\<lambda>xs. lift (Inr (x # xs))))"

primrec draw_rows :: "nat \<Rightarrow> nat \<Rightarrow> ('u, 'i, 'a, 'a list list) prog" where
  "draw_rows 0 c = lift (Inr [])"
| "draw_rows (Suc r) c =
     bind_m (draw_list c) (\<lambda>x. bind_m (draw_rows r c) (\<lambda>xs. lift (Inr (x # xs))))"

definition kaiming_m ::
  "'a arith \<Rightarrow> (('u, 'i, 'a) usernet \<Rightarrow> 'a linear)
   \<Rightarrow> ('a linear \<Rightarrow> ('u, 'i, 'a) usernet \<Rightarrow> ('u, 'i, 'a) usernet)
   \<Rightarrow> ('u, 'i, 'a, unit) prog" where
  "kaiming_m ar layer put =
     bind_m (attr layer) (\<lambda>lin.
     bind_m (draw_rows (out_features lin) (in_features lin)) (\<lambda>w.
     set_attr (put (lin\<lparr>weight := w,
                         bias := replicate (out_features lin) (a_of_real ar 0)\<rparr>))))"

text \<open>\<^verbatim>\<open>_get_user\<close>, \<^verbatim>\<open>_get_items\<close> and \<^verbatim>\<open>get_items\<close>, reading \<^verbatim>\<open>self\<close>.\<close>

definition u_get_user_m :: "'u \<Rightarrow> ('u, 'i, 'a, nat) prog" where
  "u_get_user_m user_id =
     bind_m (attr user_dict) (\<lambda>d.
     lift (case d user_id of None \<Rightarrow> Inl KeyError | Some i \<Rightarrow> Inr i))"

definition u_get_items_m :: "'i list \<Rightarrow> ('u, 'i, 'a, index_tensor) prog" where
  "u_get_items_m items =
     bind_m (attr item_dict) (\<lambda>d.
     bind_m (lift (lookup_each d items)) (\<lambda>idx.
     lift (Inr (torch_tensor_ints idx))))"

definition get_items_m :: "'i list \<Rightarrow> ('u, 'i, 'a, 'a list list) prog" where
  "get_items_m item_ids =
     bind_m (u_get_items_m item_ids) (\<lambda>idx.
     bind_m (attr item_embedding) (\<lambda>table.
     lift (embedding1 table idx)))"

text \<open>\<^verbatim>\<open>forward\<close>, statement by statement.\<close>

definition forward_m ::
  "'a arith \<Rightarrow> 'u \<Rightarrow> 'i list \<Rightarrow> pyobj \<Rightarrow> ('u, 'i, 'a, 'a list) prog" where
  "forward_m ar user_id item_ids features =
     bind_m (u_get_user_m user_id) (\<lambda>ui.
     bind_m (attr user_embedding) (\<lambda>utable.
     bind_m (lift (embedding0 utable ui)) (\<lambda>user.
     bind_m (u_get_items_m item_ids) (\<lambda>idx.
     bind_m (attr item_embedding) (\<lambda>itable.
     bind_m (lift (embedding1 itable idx)) (\<lambda>items.
     bind_m (attr feats) (\<lambda>fs.
     bind_m (case fs of
               Some fn \<Rightarrow>
                 bind_m (lift (torch_tensor ar features)) (\<lambda>t.
                 lift (FeatureNet_forward ar fn user t))
             | None \<Rightarrow> lift (Inr (Vec []))) (\<lambda>components.
     bind_m (lift (forward_concat user items components)) (\<lambda>x.
     bind_m (attr l1) (\<lambda>lin1.
     bind_m (lift (F_linear ar lin1 x)) (\<lambda>x.
     bind_m (attr l2) (\<lambda>lin2.
     bind_m (lift (F_linear ar lin2 (F_relu ar x))) (\<lambda>x.
     bind_m (lift (tensor_mul ar items (F_softmax0 ar x))) (\<lambda>p.
     lift (vec_add ar user (sum0 ar p))))))))))))))))"

text \<open>The static method \<^verbatim>\<open>score\<close> has no \<^verbatim>\<open>self\<close> to read.\<close>

definition score_m :: "'a arith \<Rightarrow> 'a list \<Rightarrow> 'a matrix \<Rightarrow> ('u, 'i, 'a, 'a list) prog" where
  "score_m ar user items = lift (score ar user items)"

section \<open>Shape invariant of the parameters\<close>

text \<open>
  Training replaces the values of the parameters and never their shapes. The invariant
  says what \<^verbatim>\<open>__init__\<close> has established: every dictionary index is a row of its
  embedding table, the rows have width \<open>emb_dim\<close>, and the layers have the sizes of
  their \<^verbatim>\<open>nn.Linear\<close> constructors.
\<close>

definition linear_ok :: "'a linear \<Rightarrow> nat \<Rightarrow> nat \<Rightarrow> bool" where
  "linear_ok lin i o' =
     (in_features lin = i \<and> out_features lin = o' \<and> length (weight lin) = o'
      \<and> list_all (\<lambda>w. length w = i) (weight lin) \<and> length (bias lin) = o')"

definition table_ok :: "('k \<rightharpoonup> nat) \<Rightarrow> 'a list list \<Rightarrow> nat \<Rightarrow> bool" where
  "table_ok d table D =
     (list_all (\<lambda>r. length r = D) table \<and> (\<forall>k i. d k = Some i \<longrightarrow> i < length table))"

definition usernet_inv :: "('u, 'i, 'a) usernet \<Rightarrow> bool" where
  "usernet_inv self =
     (table_ok (user_dict self) (user_embedding self) (emb_dim self)
      \<and> table_ok (item_dict self) (item_embedding self) (emb_dim self)
      \<and> linear_ok (l1 self) ((2 + (if feats self \<noteq> None then 1 else 0)) * emb_dim self)
            (emb_dim self)
      \<and> linear_ok (l2 self) (emb_dim self) 1
      \<and> (case feats self of
            None \<Rightarrow> True
          | Some fn \<Rightarrow>
              emb_dim self < in_features (feats_l1 fn)
              \<and> linear_ok (feats_l1 fn) (in_features (feats_l1 fn)) (emb_dim self)
              \<and> linear_ok (feats_l2 fn) (emb_dim self) (emb_dim self)))"

text \<open>The embedding rows of a user id and of a list of item ids.\<close>

definition user_row :: "('u, 'i, 'a) usernet \<Rightarrow> 'u \<Rightarrow> 'a list" where
  "user_row self user_id = user_embedding self ! the (user_dict self user_id)"

definition item_rows :: "('u, 'i, 'a) usernet \<Rightarrow> 'i list \<Rightarrow> 'a list list" where
  "item_rows self item_ids =
     map (\<lambda>k. item_embedding self ! the (item_dict self k)) item_ids"

definition known_items :: "('u, 'i, 'a) usernet \<Rightarrow> 'i list \<Rightarrow> bool" where
  "known_items self item_ids = list_all (\<lambda>k. item_dict self k \<noteq> None) item_ids"

section \<open>What forward computes, in the kernels of the library\<close>

text \<open>
  The logit of one item row, the pooled item vector and the row-wise product of
  \<^verbatim>\<open>score\<close>, written with the kernels of whatever arithmetic the library has.
\<close>

definition item_logit :: "'a arith \<Rightarrow> ('u, 'i, 'a) usernet \<Rightarrow> 'a list \<Rightarrow> 'a list \<Rightarrow> 'a" where
  "item_logit ar self u i =
     hd (affine ar (l2 self) (map (a_relu ar) (affine ar (l1 self) (u @ i))))"

definition kernel_weights ::
  "'a arith \<Rightarrow> ('u, 'i, 'a) usernet \<Rightarrow> 'a list \<Rightarrow> 'a list list \<Rightarrow> 'a list" where
  "kernel_weights ar self u Is = a_softmax ar (map (item_logit ar self u) Is)"

definition attention_pool ::
  "'a arith \<Rightarrow> ('u, 'i, 'a) usernet \<Rightarrow> 'a list \<Rightarrow> 'a list list \<Rightarrow> 'a list" where
  "attention_pool ar self u Is =
     map (\<lambda>d. a_sum ar (map (\<lambda>n. a_mul ar (Is ! n ! d) (kernel_weights ar self u Is ! n))
                          [0..<length Is]))
       [0..<emb_dim self]"

definition row_dot :: "'a arith \<Rightarrow> 'a list \<Rightarrow> 'a list \<Rightarrow> 'a" where
  "row_dot ar u i = a_sum ar (map2 (a_mul ar) u i)"

text \<open>
  The linear combination \<open>a\<cdot>I1 + b\<cdot>I2\<close> of two matrices and of two vectors, as the caller
  computes it with the library.
\<close>

definition mat_lin :: "'a arith \<Rightarrow> 'a \<Rightarrow> 'a matrix \<Rightarrow> 'a \<Rightarrow> 'a matrix \<Rightarrow> 'a matrix" where
  "mat_lin ar a I1 b I2 =
     Matrix (mat_cols I1)
       (map2 (map2 (\<lambda>x y. a_add ar (a_mul ar a x) (a_mul ar b y))) (mat_rows I1) (mat_rows I2))"

definition vec_lin :: "'a arith \<Rightarrow> 'a \<Rightarrow> 'a list \<Rightarrow> 'a \<Rightarrow> 'a list \<Rightarrow> 'a list" where
  "vec_lin ar a s1 b s2 = map2 (\<lambda>x y. a_add ar (a_mul ar a x) (a_mul ar b y)) s1 s2"

section \<open>The specification's formulas\<close>

text \<open>
  The attention pooling as the specification words it, over the reals and written
  without the definitions above: a linear layer is \<open>\<Sum>\<^sub>k W\<^sub>j\<^sub>k \<cdot> x\<^sub>k + b\<^sub>j\<close>, ReLU is
  \<open>max(x, 0)\<close>, the logit of an item row is the output of layer1, ReLU, layer2 on the
  user row followed by the item row, the weights are the softmax of the logits over the
  items, and the result is \<open>u + \<Sum>\<^sub>n w\<^sub>n \<cdot> I\<^sub>n\<close>.
\<close>

definition spec_linear :: "real list list \<Rightarrow> real list \<Rightarrow> real list \<Rightarrow> real list" where
  "spec_linear W b x = map (\<lambda>j. (\<Sum>k < length x. W ! j ! k * x ! k) + b ! j) [0..<length b]"

definition spec_relu :: "real \<Rightarrow> real" where
  "spec_relu x = (if x < 0 then 0 else x)"

definition spec_logit :: "('u, 'i, real) usernet \<Rightarrow> real list \<Rightarrow> real list \<Rightarrow> real" where
  "spec_logit self u i =
     spec_linear (weight (l2 self)) (bias (l2 self))
       (map spec_relu (spec_linear (weight (l1 self)) (bias (l1 self)) (u @ i))) ! 0"

definition spec_softmax :: "real list \<Rightarrow> real list" where
  "spec_softmax zs = map (\<lambda>z. exp z / (\<Sum>z' \<leftarrow> zs. exp z')) zs"

definition spec_weights :: "('u, 'i, real) usernet \<Rightarrow> real list \<Rightarrow> real list list \<Rightarrow> real list" where
  "spec_weights self u Is = spec_softmax (map (spec_logit self u) Is)"

definition spec_weighted_sum :: "real list \<Rightarrow> real list list \<Rightarrow> nat \<Rightarrow> real list" where
  "spec_weighted_sum ws Is D = map (\<lambda>d. \<Sum>(w, i) \<leftarrow> zip ws Is. w * i ! d) [0..<D]"

definition spec_vec_add :: "real list \<Rightarrow> real list \<Rightarrow> real list" where
  "spec_vec_add a b = map2 (+) a b"

definition spec_dot :: "real list \<Rightarrow> real list \<Rightarrow> real" where
  "spec_dot u i = (\<Sum>k < length u. u ! k * i ! k)"

section \<open>Concrete models\<close>

text \<open>
  Over the reals: two users, three items, \<open>D = 2\<close>; layer1 starts as the identity on the
  user columns, layer2 as zero, so that all logits are equal. \<open>ex_net\<close> has no feature
  fusion, \<open>ex_net_f\<close> has features of width 1.
\<close>

definition ex_iv :: "real init_values" where
  "ex_iv = \<lparr>user_embedding_init = (\<lambda>i j. real (i + j)),
            item_embedding_init = (\<lambda>i j. real (3 * (i + j))),
            l1_weight_init = (\<lambda>i j. if i = j then 1 else 0),
            l2_weight_init = (\<lambda>i j. 0),
            l2_bias_init = (\<lambda>i. 0),
            feats_l1_weight_init = (\<lambda>i j. 0),
            feats_l2_weight_init = (\<lambda>i j. 0)\<rparr>"

definition ex_net :: "(string, string, real) usernet" where
  "ex_net = UserNet_init real_arith [''u1'', ''u2''] [''a'', ''b'', ''c''] 2 0 ex_iv"

definition ex_net_f :: "(string, string, real) usernet" where
  "ex_net_f = UserNet_init real_arith [''u1'', ''u2''] [''a'', ''b'', ''c''] 2 1 ex_iv"

text \<open>
  In float32, \<open>D = 1\<close>, one user and three items, all layers zero, so that the three
  logits are 0 and the three weights are the float32 nearest to 1/3. The items are
  \<open>3\<cdot>2^24\<close>, \<open>3\<close> and \<open>-3\<cdot>2^24\<close>.
\<close>

definition ex32_iv :: "f32 init_values" where
  "ex32_iv = \<lparr>user_embedding_init = (\<lambda>i j. Fin 0),
              item_embedding_init =
                (\<lambda>i j. if i = 0 then Fin 50331648 else if i = 1 then Fin 3
                       else Fin (- 50331648)),
              l1_weight_init = (\<lambda>i j. Fin 0),
              l2_weight_init = (\<lambda>i j. Fin 0),
              l2_bias_init = (\<lambda>i. Fin 0),
              feats_l1_weight_init = (\<lambda>i j. Fin 0),
              feats_l2_weight_init = (\<lambda>i j. Fin 0)\<rparr>"

definition ex32_net :: "(string, string, f32) usernet" where
  "ex32_net = UserNet_init f32_arith [''u1''] [''a'', ''b'', ''c''] 1 0 ex32_iv"

text \<open>
  In float32, \<open>D = 1\<close>: the user is \<open>2^127\<close>, both items are 1, and layer1 multiplies
  the user column by 4, which overflows.
\<close>

definition ovf_iv :: "f32 init_values" where
  "ovf_iv = \<lparr>user_embedding_init = (\<lambda>i j. Fin (2 ^ 127)),
             item_embedding_init = (\<lambda>i j. Fin 1),
             l1_weight_init = (\<lambda>i j. if j = 0 then Fin 4 else Fin 0),
             l2_weight_init = (\<lambda>i j. Fin 1),
             l2_bias_init = (\<lambda>i. Fin 0),
             feats_l1_weight_init = (\<lambda>i j. Fin 0),
             feats_l2_weight_init = (\<lambda>i j. Fin 0)\<rparr>"

definition ovf_net :: "(string, string, f32) usernet" where
  "ovf_net = UserNet_init f32_arith [''u1''] [''a'', ''b''] 1 0 ovf_iv"

text \<open>A finite float32 value that is a float32, and not only any real number.\<close>

fun f32_ok :: "f32 \<Rightarrow> bool" where
  "f32_ok (Fin x) = (f32_round x = Fin x)"
| "f32_ok v = True"

section \<open>Auxiliary facts\<close>

subsection \<open>The dictionary loop\<close>

lemma create_dict_loop_notin:
  "k \<notin> set vs \<Longrightarrow> create_dict_loop res i vs k = res k"
  by (induction vs arbitrary: res i) auto

lemma create_dict_loop_nth:
  "distinct vs \<Longrightarrow> j < length vs \<Longrightarrow> create_dict_loop res i vs (vs ! j) = Some (i + j)"
proof (induction vs arbitrary: res i j)
  case Nil
  then show ?case by simp
next
  case (Cons v vs)
  show ?case
  proof (cases j)
    case 0
    with Cons.prems show ?thesis by (simp add: create_dict_loop_notin)
  next
    case (Suc j')
    with Cons.prems have "distinct vs" "j' < length vs" by simp_all
    then have "create_dict_loop (res(v \<mapsto> i)) (Suc i) vs (vs ! j') = Some (Suc i + j')"
      by (rule Cons.IH)
    with Suc show ?thesis by simp
  qed
qed

lemma dom_create_dict_loop:
  "dom (create_dict_loop res i vs) = dom res \<union> set vs"
  by (induction vs arbitrary: res i) auto

lemma create_dict_loop_range:
  "create_dict_loop res i vs k = Some j \<Longrightarrow> res k = Some j \<or> (i \<le> j \<and> j < i + length vs)"
proof (induction vs arbitrary: res i)
  case Nil
  then show ?case by simp
next
  case (Cons v vs)
  from Cons.IH [OF Cons.prems [simplified]] show ?case
    by (auto split: if_splits)
qed

lemma create_dict_range: "create_dict vs k = Some j \<Longrightarrow> j < length vs"
  using create_dict_loop_range [of Map.empty 0 vs k j] by (simp add: create_dict_def)

lemma create_dict_nth:
  "distinct ids \<Longrightarrow> i < length ids \<Longrightarrow> create_dict ids (ids ! i) = Some i"
  using create_dict_loop_nth [of ids i Map.empty 0] by (simp add: create_dict_def)

lemma dom_create_dict: "dom (create_dict ids) = set ids"
  by (simp add: create_dict_def dom_create_dict_loop)

lemma create_dict_bij:
  assumes "distinct ids"
  shows "bij_betw (\<lambda>k. the (create_dict ids k)) (set ids) {0..<length ids}"
proof (rule bij_betw_byWitness [where f' = "\<lambda>i. ids ! i"])
  show "\<forall>k\<in>set ids. ids ! the (create_dict ids k) = k"
    using assms by (auto simp: in_set_conv_nth create_dict_nth)
  show "\<forall>i\<in>{0..<length ids}. the (create_dict ids (ids ! i)) = i"
    using assms by (simp add: create_dict_nth)
  show "(\<lambda>k. the (create_dict ids k)) ` set ids \<subseteq> {0..<length ids}"
    using assms by (auto simp: in_set_conv_nth create_dict_nth)
  show "(\<lambda>i. ids ! i) ` {0..<length ids} \<subseteq> set ids"
    by auto
qed

lemma user_dict_init: "user_dict (UserNet_init ar users items D F iv) = create_dict users"
  and item_dict_init: "item_dict (UserNet_init ar users items D F iv) = create_dict items"
  by (simp_all add: UserNet_init_def Let_def)

subsection \<open>Lookups\<close>

lemma lookup_each_known:
  "list_all (\<lambda>k. d k \<noteq> None) ks \<Longrightarrow> lookup_each d ks = Inr (map (\<lambda>k. the (d k)) ks)"
  by (induction ks) (auto simp: bind_err_def)

lemma lookup_each_unknown:
  "\<not> list_all (\<lambda>k. d k \<noteq> None) ks \<Longrightarrow> lookup_each d ks = Inl KeyError"
  by (induction ks) (auto simp: bind_err_def split: option.splits)

subsection \<open>The constructor establishes the invariant\<close>

lemma length_tabulate2 [simp]: "length (tabulate2 r c f) = r"
  by (simp add: tabulate2_def)

lemma tabulate2_rows: "list_all (\<lambda>row. length row = c) (tabulate2 r c f)"
  by (simp add: tabulate2_def list_all_iff)

lemma linear_ok_kaiming: "linear_ok (kaiming_linear ar i o' f) i o'"
  by (simp add: linear_ok_def kaiming_linear_def tabulate2_rows)

lemma usernet_inv_init: "usernet_inv (UserNet_init ar users items D F iv)"
  by (auto simp: usernet_inv_def UserNet_init_def Let_def table_ok_def tabulate2_rows
      linear_ok_kaiming linear_ok_def FeatureNet_init_def kaiming_linear_def
      dest: create_dict_range)

lemma usernet_inv_parts:
  assumes "usernet_inv self"
  shows "table_ok (user_dict self) (user_embedding self) (emb_dim self)"
    and "table_ok (item_dict self) (item_embedding self) (emb_dim self)"
    and "linear_ok (l2 self) (emb_dim self) 1"
    and "feats self = None \<Longrightarrow> linear_ok (l1 self) (2 * emb_dim self) (emb_dim self)"
  using assms by (simp_all add: usernet_inv_def)

subsection \<open>The stages of forward without feature fusion\<close>

lemma u_get_items_known:
  "known_items self ks \<Longrightarrow>
   u_get_items self ks = Inr (torch_tensor_ints (map (\<lambda>k. the (item_dict self k)) ks))"
  by (simp add: u_get_items_def known_items_def lookup_each_known bind_err_def)

lemma u_get_items_unknown:
  "\<not> known_items self ks \<Longrightarrow> u_get_items self ks = Inl KeyError"
  by (simp add: u_get_items_def known_items_def lookup_each_unknown bind_err_def)

lemma get_items_ok:
  assumes "table_ok (item_dict self) (item_embedding self) D" "known_items self ks" "ks \<noteq> []"
  shows "get_items self ks = Inr (item_rows self ks)"
proof -
  have "list_all (\<lambda>i. i < length (item_embedding self)) (map (\<lambda>k. the (item_dict self k)) ks)"
    using assms(1,2) by (auto simp: table_ok_def known_items_def list_all_iff)
  then show ?thesis
    using assms(3)
    by (simp add: get_items_def u_get_items_known [OF assms(2)] bind_err_def
        torch_tensor_ints_def item_rows_def comp_def)
qed

lemma item_rows_width:
  assumes "table_ok (item_dict self) (item_embedding self) D" "known_items self ks"
  shows "list_all (\<lambda>r. length r = D) (item_rows self ks)"
  using assms by (auto simp: table_ok_def known_items_def list_all_iff item_rows_def)

lemma user_row_width:
  assumes "table_ok (user_dict self) (user_embedding self) D" "user_dict self user_id = Some ui"
  shows "length (user_row self user_id) = D"
  using assms by (simp add: table_ok_def list_all_iff user_row_def)

lemma torch_cat_user_items:
  "Is \<noteq> [] \<Longrightarrow>
   torch_cat [Mat (replicate (length Is) u), Mat Is, Vec []] = Inr (Mat (map (\<lambda>i. u @ i) Is))"
  by (auto simp: torch_cat_def intro!: nth_equalityI)

lemma forward_concat_none:
  "Is \<noteq> [] \<Longrightarrow> forward_concat u Is (Vec []) = Inr (Mat (map (\<lambda>i. u @ i) Is))"
  by (simp add: forward_concat_def torch_cat_user_items)

lemma length_affine:
  "linear_ok lin i o' \<Longrightarrow> length (affine ar lin x) = o'"
  by (simp add: affine_def linear_ok_def)

lemma singleton_hd: "length xs = Suc 0 \<Longrightarrow> xs = [hd xs]"
  by (cases xs) auto

lemma linear1_rows:
  assumes "linear_ok (l1 self) (2 * D) D" "length u = D" "list_all (\<lambda>r. length r = D) Is"
  shows "F_linear ar (l1 self) (Mat (map (\<lambda>i. u @ i) Is)) =
         Inr (Mat (map (\<lambda>i. affine ar (l1 self) (u @ i)) Is))"
  using assms by (auto simp: list_all_iff linear_ok_def comp_def)

lemma linear2_rows:
  assumes "linear_ok (l1 self) (2 * D) D" "linear_ok (l2 self) D 1"
  shows "F_linear ar (l2 self) (F_relu ar (Mat (map (\<lambda>i. affine ar (l1 self) (u @ i)) Is))) =
         Inr (Mat (map (\<lambda>i. [item_logit ar self u i]) Is))"
proof -
  have b: "list_all (\<lambda>r. length r = in_features (l2 self))
             (map (map (a_relu ar)) (map (\<lambda>i. affine ar (l1 self) (u @ i)) Is))"
    using assms(2) by (auto simp: list_all_iff length_affine [OF assms(1)] linear_ok_def)
  have c: "affine ar (l2 self) (map (a_relu ar) (affine ar (l1 self) (u @ i))) =
           [item_logit ar self u i]" for i
    unfolding item_logit_def
    by (rule singleton_hd) (simp add: length_affine [OF assms(2)])
  show ?thesis
    using b by (simp add: comp_def c)
qed

lemma nth_singleton_rows: "n < length Is \<Longrightarrow> map (\<lambda>i. [z i]) Is ! n = [z (Is ! n)]"
  by simp

lemma column_singleton_rows: "column (map (\<lambda>i. [z i]) Is) 0 = map z Is"
  by (simp add: column_def comp_def)

lemma softmax0_column:
  "F_softmax0 ar (Mat (map (\<lambda>i. [z i]) Is)) =
   Mat (map (\<lambda>n. [a_softmax ar (map z Is) ! n]) [0..<length Is])"
proof -
  have "map (\<lambda>j. a_softmax ar (column (map (\<lambda>i. [z i]) Is) j) ! n)
          [0..<length (map (\<lambda>i. [z i]) Is ! n)] = [a_softmax ar (map z Is) ! n]"
    if "n < length Is" for n
    using that by (simp add: column_singleton_rows)
  then show ?thesis
    by (simp del: upt_Suc cong: map_cong)
qed


lemma bcast_row_scalar: "bcast_row f a [w] = map (\<lambda>x. f x w) a"
  by (cases a; cases "tl a") (auto simp: bcast_row_def)

lemma ncols_upt_rows: "0 < N \<Longrightarrow> ncols (map (\<lambda>n. [w n]) [0..<N]) = 1"
  by (simp add: upt_conv_Cons del: upt_Suc)

lemma tensor_mul_column:
  assumes "Is \<noteq> []"
  shows "tensor_mul ar Is (Mat (map (\<lambda>n. [w n]) [0..<length Is])) =
         Inr (map (\<lambda>n. map (\<lambda>x. a_mul ar x (w n)) (Is ! n)) [0..<length Is])"
proof -
  let ?W = "map (\<lambda>n. [w n]) [0..<length Is]"
  have lw: "length ?W = length Is"
    by simp
  have c: "bcast_ok (length Is) (length ?W) \<and> bcast_ok (ncols Is) (ncols ?W)"
    using assms by (simp add: bcast_ok_def ncols_upt_rows del: upt_Suc)
  have n: "(if length Is = 1 then length ?W else length Is) = length Is"
    by simp
  have e: "expand_rows Is (length Is) = Is" "expand_rows ?W (length Is) = ?W"
    by (simp_all add: expand_rows_def)
  have m: "map2 (bcast_row (a_mul ar)) Is ?W =
      map (\<lambda>n. map (\<lambda>x. a_mul ar x (w n)) (Is ! n)) [0..<length Is]"
    by (rule nth_equalityI) (simp_all add: bcast_row_scalar del: upt_Suc)
  show ?thesis
    unfolding tensor_mul.simps Let_def n e m using c by simp
qed

lemma sum0_weighted:
  assumes "Is \<noteq> []" "list_all (\<lambda>r. length r = D) Is"
  shows "sum0 ar (map (\<lambda>n. map (\<lambda>x. a_mul ar x (w n)) (Is ! n)) [0..<length Is]) =
         map (\<lambda>d. a_sum ar (map (\<lambda>n. a_mul ar (Is ! n ! d) (w n)) [0..<length Is])) [0..<D]"
proof -
  let ?P = "map (\<lambda>n. map (\<lambda>x. a_mul ar x (w n)) (Is ! n)) [0..<length Is]"
  from assms obtain i0 rest where Is: "Is = i0 # rest" and i0: "length i0 = D"
    by (cases Is) auto
  have "?P = map (\<lambda>x. a_mul ar x (w 0)) i0 #
      map (\<lambda>n. map (\<lambda>x. a_mul ar x (w n)) (Is ! n)) [1..<length Is]"
    by (simp add: Is upt_conv_Cons del: upt_Suc)
  then have nc: "ncols ?P = D"
    by (simp add: i0)
  have col: "column ?P d = map (\<lambda>n. a_mul ar (Is ! n ! d) (w n)) [0..<length Is]"
    if "d < D" for d
  proof -
    have "Is ! n \<in> set Is" if "n < length Is" for n
      using that by simp
    with assms(2) have "length (Is ! n) = D" if "n < length Is" for n
      using that by (simp add: list_all_iff)
    with \<open>d < D\<close> show ?thesis
      by (simp add: column_def comp_def del: upt_Suc cong: map_cong)
  qed
  show ?thesis
    unfolding sum0_def nc by (simp add: col del: upt_Suc cong: map_cong)
qed

lemma vec_add_same: "length a = length b \<Longrightarrow> vec_add ar a b = Inr (map2 (a_add ar) a b)"
  by (simp add: vec_add_def bcast_ok_def bcast_row_def)

lemma attention_weights_rows:
  assumes "linear_ok (l1 self) (2 * D) D" "linear_ok (l2 self) D 1"
    and "length u = D" "list_all (\<lambda>r. length r = D) Is"
  shows "attention_weights ar self (Mat (map (\<lambda>i. u @ i) Is)) =
         Inr (Mat (map (\<lambda>n. [kernel_weights ar self u Is ! n]) [0..<length Is]))"
  unfolding attention_weights_def bind_err_def kernel_weights_def
  by (simp only: linear1_rows [OF assms(1,3,4)] linear2_rows [OF assms(1,2)]
      softmax0_column sum.case)

lemma weights_closed_form:
  assumes inv: "usernet_inv self" and nofeats: "feats self = None"
    and user: "user_dict self user_id = Some ui"
    and items: "known_items self item_ids" "item_ids \<noteq> []"
  shows "bind_err (forward_concat (user_row self user_id) (item_rows self item_ids) (Vec []))
           (attention_weights ar self) =
         Inr (Mat (map (\<lambda>n. [kernel_weights ar self (user_row self user_id)
                               (item_rows self item_ids) ! n]) [0..<length item_ids]))"
proof -
  note p = usernet_inv_parts [OF inv]
  have ne: "item_rows self item_ids \<noteq> []"
    using items(2) by (simp add: item_rows_def)
  have len: "length (item_rows self item_ids) = length item_ids"
    by (simp add: item_rows_def)
  show ?thesis
    unfolding bind_err_def
    by (simp only: forward_concat_none [OF ne] sum.case len [symmetric]
        attention_weights_rows [OF p(4) [OF nofeats] p(3) user_row_width [OF p(1) user]
          item_rows_width [OF p(2) items(1)]])
qed

lemma forward_closed_form:
  assumes inv: "usernet_inv self" and nofeats: "feats self = None"
    and user: "user_dict self user_id = Some ui"
    and items: "known_items self item_ids" "item_ids \<noteq> []"
  shows "forward ar self user_id item_ids features =
         Inr (map2 (a_add ar) (user_row self user_id)
                (attention_pool ar self (user_row self user_id) (item_rows self item_ids)))"
proof -
  let ?D = "emb_dim self"
  let ?u = "user_row self user_id"
  let ?Is = "item_rows self item_ids"
  let ?w = "\<lambda>n. kernel_weights ar self ?u ?Is ! n"
  note p = usernet_inv_parts [OF inv]
  note l1 = p(4) [OF nofeats]
  from p(1) user have ui: "ui < length (user_embedding self)"
    by (simp add: table_ok_def)
  have lu: "length ?u = ?D"
    by (rule user_row_width [OF p(1) user])
  have ne: "?Is \<noteq> []"
    using items(2) by (simp add: item_rows_def)
  have wd: "list_all (\<lambda>r. length r = ?D) ?Is"
    by (rule item_rows_width [OF p(2) items(1)])
  have s1: "u_get_user self user_id = Inr ui"
    by (simp add: u_get_user_def user)
  have s2: "embedding0 (user_embedding self) ui = Inr ?u"
    using ui by (simp add: embedding0_def user_row_def user)
  have s3: "u_get_items self item_ids =
            Inr (torch_tensor_ints (map (\<lambda>k. the (item_dict self k)) item_ids))"
    by (rule u_get_items_known [OF items(1)])
  have s4: "embedding1 (item_embedding self)
              (torch_tensor_ints (map (\<lambda>k. the (item_dict self k)) item_ids)) = Inr ?Is"
    using get_items_ok [OF p(2) items] by (simp add: get_items_def s3 bind_err_def)
  have s5: "forward_components ar self ?u features = Inr (Vec [])"
    by (simp add: forward_components_def nofeats)
  note s6 = forward_concat_none [OF ne, of ?u]
  note s7 = attention_weights_rows [OF l1 p(3) lu wd, of ar]
  note s8 = tensor_mul_column [OF ne, of ar ?w]
  note s9 = sum0_weighted [OF ne wd, of ar ?w]
  have "length ?u =
      length (map (\<lambda>d. a_sum ar (map (\<lambda>n. a_mul ar (?Is ! n ! d) (?w n)) [0..<length ?Is]))
        [0..<?D])"
    by (simp add: lu)
  note s10 = vec_add_same [OF this, of ar]
  show ?thesis
    unfolding forward_def attention_pool_def bind_err_def
    by (simp only: s1 s2 s3 s4 s5 s6 s7 s8 s9 s10 sum.case)
qed

lemma length_attention_pool: "length (attention_pool ar self u Is) = emb_dim self"
  by (simp add: attention_pool_def)

lemma forward_unknown_user:
  "user_dict self user_id = None \<Longrightarrow> forward ar self user_id item_ids features = Inl KeyError"
  by (simp add: forward_def u_get_user_def bind_err_def)

lemma forward_unknown_item:
  assumes "table_ok (user_dict self) (user_embedding self) D"
    and "user_dict self user_id = Some ui" and "\<not> known_items self item_ids"
  shows "forward ar self user_id item_ids features = Inl KeyError"
  using assms
  by (simp add: forward_def u_get_user_def bind_err_def embedding0_def table_ok_def
      u_get_items_unknown)

lemma forward_no_items:
  assumes "table_ok (user_dict self) (user_embedding self) D"
    and "user_dict self user_id = Some ui"
  shows "forward ar self user_id [] features = Inl RuntimeError"
  using assms
  by (simp add: forward_def u_get_user_def bind_err_def embedding0_def table_ok_def
      u_get_items_def torch_tensor_ints_def)

subsection \<open>Exact arithmetic meets the specification's formulas\<close>

lemma real_arith_simps:
  "a_of_real real_arith = (\<lambda>x. x)" "a_add real_arith = (+)" "a_mul real_arith = (*)"
  "a_relu real_arith = (\<lambda>x. max x 0)"
  "a_affine real_arith = (\<lambda>x w b. sum_list (map2 (*) x w) + b)"
  "a_softmax real_arith = (\<lambda>zs. map (\<lambda>z. exp z / sum_list (map exp zs)) zs)"
  "a_sum real_arith = sum_list"
  by (simp_all add: real_arith_def)

lemma sum_list_map2_nth:
  fixes x w :: "real list"
  assumes "length w = length x"
  shows "sum_list (map2 (*) x w) = (\<Sum>k < length x. w ! k * x ! k)"
proof -
  have "map2 (*) x w = map (\<lambda>k. w ! k * x ! k) [0..<length x]"
    using assms by (intro nth_equalityI) (simp_all add: mult.commute)
  then show ?thesis
    by (simp add: sum_list_sum_nth atLeast0LessThan)
qed

lemma affine_real_spec:
  assumes "linear_ok lin (length x) o'"
  shows "affine real_arith lin x = spec_linear (weight lin) (bias lin) x"
proof -
  from assms have len: "length (weight lin) = length (bias lin)"
    and rows: "\<And>j. j < length (bias lin) \<Longrightarrow> length (weight lin ! j) = length x"
    by (auto simp: linear_ok_def list_all_iff)
  show ?thesis
    unfolding affine_def spec_linear_def
    by (rule nth_equalityI)
       (simp_all add: len real_arith_simps sum_list_map2_nth rows)
qed

lemma relu_real_spec: "a_relu real_arith = spec_relu"
  by (auto simp: real_arith_simps spec_relu_def fun_eq_iff)

lemma item_logit_real_spec:
  assumes "linear_ok (l1 self) (2 * D) D" "linear_ok (l2 self) D 1"
    and "length u = D" "length i = D"
  shows "item_logit real_arith self u i = spec_logit self u i"
proof -
  have a: "linear_ok (l1 self) (length (u @ i)) D"
    using assms(1,3,4) by (simp add: mult_2)
  have "length (map spec_relu (spec_linear (weight (l1 self)) (bias (l1 self)) (u @ i))) = D"
    using assms(1) by (simp add: spec_linear_def linear_ok_def)
  with assms(2) have b: "linear_ok (l2 self)
      (length (map spec_relu (spec_linear (weight (l1 self)) (bias (l1 self)) (u @ i)))) 1"
    by simp
  have "length (spec_linear (weight (l2 self)) (bias (l2 self)) xs) = 1" for xs
    using assms(2) by (simp add: spec_linear_def linear_ok_def)
  then have "hd (spec_linear (weight (l2 self)) (bias (l2 self)) xs) =
      spec_linear (weight (l2 self)) (bias (l2 self)) xs ! 0" for xs
    by (metis hd_conv_nth length_0_conv zero_neq_one)
  then show ?thesis
    by (simp add: item_logit_def spec_logit_def affine_real_spec [OF a] relu_real_spec
        affine_real_spec [OF b])
qed

lemma softmax_real_spec: "a_softmax real_arith = spec_softmax"
  by (simp add: real_arith_simps spec_softmax_def fun_eq_iff)

lemma kernel_weights_real_spec:
  assumes "linear_ok (l1 self) (2 * D) D" "linear_ok (l2 self) D 1"
    and "length u = D" "list_all (\<lambda>r. length r = D) Is"
  shows "kernel_weights real_arith self u Is = spec_weights self u Is"
proof -
  have "map (item_logit real_arith self u) Is = map (spec_logit self u) Is"
  proof (rule map_cong [OF refl])
    fix i assume "i \<in> set Is"
    with assms(4) have "length i = D"
      by (simp add: list_all_iff)
    then show "item_logit real_arith self u i = spec_logit self u i"
      by (rule item_logit_real_spec [OF assms(1,2,3)])
  qed
  then show ?thesis
    unfolding kernel_weights_def spec_weights_def softmax_real_spec by (rule arg_cong)
qed

lemma length_spec_weights: "length (spec_weights self u Is) = length Is"
  by (simp add: spec_weights_def spec_softmax_def)

lemma attention_pool_real_spec:
  assumes "linear_ok (l1 self) (2 * D) D" "linear_ok (l2 self) D 1"
    and "length u = D" "list_all (\<lambda>r. length r = D) Is"
  shows "attention_pool real_arith self u Is =
         spec_weighted_sum (spec_weights self u Is) Is (emb_dim self)"
proof -
  let ?w = "spec_weights self u Is"
  have "map (\<lambda>n. Is ! n ! d * ?w ! n) [0..<length Is] = map2 (\<lambda>w i. w * i ! d) ?w Is" for d
    by (rule nth_equalityI) (simp_all add: length_spec_weights mult.commute)
  then show ?thesis
    unfolding attention_pool_def spec_weighted_sum_def kernel_weights_real_spec [OF assms]
      real_arith_simps
    by simp
qed

subsection \<open>Softmax weights over the reals\<close>






lemma spec_weights_map:
  "spec_weights self u Is =
   map (\<lambda>i. exp (spec_logit self u i) / (\<Sum>i' \<leftarrow> Is. exp (spec_logit self u i'))) Is"
  by (simp add: spec_weights_def spec_softmax_def comp_def)

lemma spec_weighted_sum_list:
  "spec_weighted_sum (spec_weights self u Is) Is D =
   map (\<lambda>d. \<Sum>i \<leftarrow> Is. exp (spec_logit self u i) / (\<Sum>i' \<leftarrow> Is. exp (spec_logit self u i'))
                  * i ! d) [0..<D]"
  by (simp add: spec_weighted_sum_def spec_weights_map zip_map1 zip_same_conv_map comp_def)

lemma forward_real_spec:
  assumes "usernet_inv self" and "feats self = None"
    and "user_dict self user_id = Some ui"
    and "known_items self item_ids" and "item_ids \<noteq> []"
  shows "forward real_arith self user_id item_ids features =
         Inr (spec_vec_add (user_row self user_id)
                (spec_weighted_sum
                   (spec_weights self (user_row self user_id) (item_rows self item_ids))
                   (item_rows self item_ids) (emb_dim self)))"
proof -
  note p = usernet_inv_parts [OF assms(1)]
  note sh = p(4) [OF assms(2)] p(3) user_row_width [OF p(1) assms(3)]
    item_rows_width [OF p(2) assms(4)]
  show ?thesis
    by (simp add: forward_closed_form [OF assms] attention_pool_real_spec [OF sh]
        spec_vec_add_def real_arith_simps)
qed


subsection \<open>Rounding to float32\<close>

lemma two_pow_powr: "two_pow e = 2 powr (of_int e)"
  by (simp add: two_pow_def powr_int)

lemma two_pow_pos: "0 < two_pow e"
  by (simp add: two_pow_powr)

lemma f32_exponent_eq:
  assumes "two_pow e \<le> \<bar>x\<bar>" "\<bar>x\<bar> < two_pow (e + 1)"
  shows "f32_exponent x = max (- 126) (min 127 e)"
proof -
  from assms(1) two_pow_pos [of e] have pos: "0 < \<bar>x\<bar>"
    by linarith
  have "2 powr (of_int e) \<le> \<bar>x\<bar> \<and> \<bar>x\<bar> < 2 powr (of_int (e + 1))"
    using assms by (simp add: two_pow_powr)
  then have "\<lfloor>log 2 \<bar>x\<bar>\<rfloor> = e"
    using floor_log_eq_powr_iff [OF pos, of 2 e] by simp
  then show ?thesis
    by (simp add: f32_exponent_def)
qed

lemma f32_round_at:
  assumes "two_pow e \<le> \<bar>x\<bar>" "\<bar>x\<bar> < two_pow (e + 1)"
  shows "f32_round x =
         (let u = two_pow (max (- 126) (min 127 e) - 23);
              y = of_int (half_even (x / u)) * u
          in if f32_max < y then PInf else if y < - f32_max then NInf else Fin y)"
proof -
  from assms(1) two_pow_pos [of e] have "x \<noteq> 0"
    by auto
  then show ?thesis
    by (simp add: f32_round_def f32_exponent_eq [OF assms])
qed

lemma f32_round_0: "f32_round 0 = Fin 0"
  by (simp add: f32_round_def)

lemmas f32_eval = two_pow_def half_even_def f32_max_def Let_def

lemma f32_round_small:
  "f32_round 1 = Fin 1" "f32_round 2 = Fin 2" "f32_round 3 = Fin 3"
  using f32_round_at [of 0 1] f32_round_at [of 1 2] f32_round_at [of 1 3]
  by (simp_all add: f32_eval)

lemma f32_round_third: "f32_round (1 / 3) = Fin (11184811 / 33554432)"
  using f32_round_at [of "- 2" "1 / 3"] by (simp add: f32_eval)

lemma f32_round_near_one: "f32_round (33554433 / 33554432) = Fin 1"
  using f32_round_at [of 0 "33554433 / 33554432"] by (simp add: f32_eval)

lemma f32_round_2_24:
  "f32_round 16777216 = Fin 16777216"
  "f32_round 16777217 = Fin 16777216"
  "f32_round (33554433 / 2) = Fin 16777216"
  "f32_round (- (33554433 / 2)) = Fin (- 16777216)"
  using f32_round_at [of 24 16777216] f32_round_at [of 24 16777217]
    f32_round_at [of 24 "33554433 / 2"] f32_round_at [of 24 "- (33554433 / 2)"]
  by (simp_all add: f32_eval)

lemma f32_round_2_25:
  "f32_round 50331648 = Fin 50331648"
  "f32_round 50331651 = Fin 50331652"
  using f32_round_at [of 25 50331648] f32_round_at [of 25 50331651]
  by (simp_all add: f32_eval)

lemma f32_round_overflow: "f32_round (2 ^ 127 * 4) = PInf"
  using f32_round_at [of 129 "2 ^ 127 * 4"] by (simp add: f32_eval)

lemma f32_round_2_127: "f32_round (2 ^ 127) = Fin (2 ^ 127)"
  using f32_round_at [of 127 "2 ^ 127"] by (simp add: f32_eval)

subsection \<open>The concrete models, evaluated\<close>

lemma upt_small: "[0..<1] = [0]" "[0..<2] = [0, 1]" "[0..<3] = [0, 1, 2]" "[0..<4] = [0, 1, 2, 3]"
  by (simp_all add: eval_nat_numeral)

lemma replicate_small: "replicate 1 x = [x]" "replicate 2 x = [x, x]" "replicate 3 x = [x, x, x]"
  by (simp_all add: eval_nat_numeral)

lemma f32_arith_simps:
  "a_of_real f32_arith = f32_round" "a_add f32_arith = fadd" "a_mul f32_arith = fmul"
  "a_relu f32_arith = frelu"
  "a_affine f32_arith = (\<lambda>x w b. fadd (fsum (map2 fmul x w)) b)"
  "a_softmax f32_arith = fsoftmax" "a_sum f32_arith = fsum"
  by (simp_all add: f32_arith_def)

lemma ex_net_inv: "usernet_inv ex_net"
  unfolding ex_net_def by (rule usernet_inv_init)

lemma ex_user_dict: "user_dict ex_net ''u1'' = Some 0" "user_dict ex_net ''u2'' = Some 1"
  "user_dict ex_net ''zz'' = None"
  by (simp_all add: ex_net_def UserNet_init_def create_dict_def)

lemma ex_item_dict: "item_dict ex_net ''a'' = Some 0" "item_dict ex_net ''b'' = Some 1"
  "item_dict ex_net ''c'' = Some 2" "item_dict ex_net ''zz'' = None"
  by (simp_all add: ex_net_def UserNet_init_def create_dict_def)

lemma ex_user_embedding: "user_embedding ex_net = [[0, 1], [1, 2]]"
  by (simp add: ex_net_def UserNet_init_def tabulate2_def ex_iv_def upt_small)

lemma ex_item_embedding: "item_embedding ex_net = [[0, 3], [3, 6], [6, 9]]"
  by (simp add: ex_net_def UserNet_init_def tabulate2_def ex_iv_def upt_small)



lemma ex_feats: "feats ex_net = None" "emb_dim ex_net = 2"
  by (simp_all add: ex_net_def UserNet_init_def)

lemma ex_known_items: "known_items ex_net [''a'', ''b'', ''c'']" "known_items ex_net [''b'']"
  "\<not> known_items ex_net [''a'', ''zz'']"
  by (simp_all add: known_items_def ex_item_dict)

lemma ex_rows: "user_row ex_net ''u1'' = [0, 1]"
  "item_rows ex_net [''a'', ''b'', ''c''] = [[0, 3], [3, 6], [6, 9]]"
  "item_rows ex_net [''b''] = [[3, 6]]"
  by (simp_all add: user_row_def item_rows_def ex_user_dict ex_item_dict ex_user_embedding
      ex_item_embedding)

lemma sum_lessThan_small:
  fixes f :: "nat \<Rightarrow> real"
  shows "(\<Sum>k < 2. f k) = f 0 + f 1" "(\<Sum>k < 4. f k) = f 0 + f 1 + f 2 + f 3"
  by (simp_all add: eval_nat_numeral lessThan_Suc)



lemma ex_get_items: "get_items ex_net [''b''] = Inr [[3, 6]]"
  using get_items_ok [OF usernet_inv_parts(2) [OF ex_net_inv] ex_known_items(2)]
  by (simp add: ex_rows)

lemma ex_net_f_inv: "usernet_inv ex_net_f"
  unfolding ex_net_f_def by (rule usernet_inv_init)

lemma ex_net_f_facts:
  "feats ex_net_f = Some (FeatureNet_init real_arith 2 1 ex_iv)"
  "user_dict ex_net_f ''u1'' = Some 0"
  "known_items ex_net_f [''a'', ''b'']"
  by (simp_all add: ex_net_f_def UserNet_init_def create_dict_def known_items_def)

text \<open>The float32 model with zero layers: every logit is 0.\<close>

lemma ex32_inv: "usernet_inv ex32_net"
  unfolding ex32_net_def by (rule usernet_inv_init)

lemma ex32_facts:
  "feats ex32_net = None" "emb_dim ex32_net = 1"
  "user_dict ex32_net ''u1'' = Some 0"
  "item_dict ex32_net ''a'' = Some 0" "item_dict ex32_net ''b'' = Some 1"
  "item_dict ex32_net ''c'' = Some 2"
  "user_embedding ex32_net = [[Fin 0]]"
  "item_embedding ex32_net = [[Fin 50331648], [Fin 3], [Fin (- 50331648)]]"
  "l1 ex32_net = \<lparr>in_features = 2, out_features = 1, weight = [[Fin 0, Fin 0]],
                   bias = [Fin 0]\<rparr>"
  "l2 ex32_net = \<lparr>in_features = 1, out_features = 1, weight = [[Fin 0]], bias = [Fin 0]\<rparr>"
  by (simp_all add: ex32_net_def UserNet_init_def create_dict_def tabulate2_def ex32_iv_def
      kaiming_linear_def upt_small replicate_small f32_arith_simps f32_round_0
      eval_nat_numeral)

lemma ex32_known: "known_items ex32_net [''a'', ''b'', ''c'']"
  "known_items ex32_net [''a'', ''c'', ''b'']" "known_items ex32_net [''b'']"
  by (simp_all add: known_items_def ex32_facts)

lemma ex32_rows: "user_row ex32_net ''u1'' = [Fin 0]"
  "item_rows ex32_net [''a'', ''b'', ''c''] = [[Fin 50331648], [Fin 3], [Fin (- 50331648)]]"
  "item_rows ex32_net [''a'', ''c'', ''b''] = [[Fin 50331648], [Fin (- 50331648)], [Fin 3]]"
  "item_rows ex32_net [''b''] = [[Fin 3]]"
  by (simp_all add: user_row_def item_rows_def ex32_facts)

lemma ex32_logit: "item_logit f32_arith ex32_net [Fin 0] [Fin v] = Fin 0"
  by (simp add: item_logit_def affine_def ex32_facts f32_arith_simps fsum_def f32_round_0)

lemma fsoftmax_zeros:
  "fsoftmax [Fin 0, Fin 0, Fin 0] =
   [Fin (11184811 / 33554432), Fin (11184811 / 33554432), Fin (11184811 / 33554432)]"
  by (simp add: fsoftmax_def fsub_def fsum_def f32_round_0 f32_round_small f32_round_third)

lemma ex32_weights:
  "kernel_weights f32_arith ex32_net [Fin 0] [[Fin x], [Fin y], [Fin z]] =
   [Fin (11184811 / 33554432), Fin (11184811 / 33554432), Fin (11184811 / 33554432)]"
  by (simp add: kernel_weights_def ex32_logit f32_arith_simps fsoftmax_zeros)

lemma ex32_forward_abc: "forward f32_arith ex32_net ''u1'' [''a'', ''b'', ''c''] PyNone = Inr [Fin 0]"
  by (simp add: forward_closed_form [OF ex32_inv ex32_facts(1) ex32_facts(3) ex32_known(1)]
      ex32_rows attention_pool_def ex32_weights ex32_facts(2) upt_small f32_arith_simps
      fsum_def f32_round_0 f32_round_small f32_round_2_24 f32_round_near_one)

lemma ex32_forward_acb: "forward f32_arith ex32_net ''u1'' [''a'', ''c'', ''b''] PyNone = Inr [Fin 1]"
  by (simp add: forward_closed_form [OF ex32_inv ex32_facts(1) ex32_facts(3) ex32_known(2)]
      ex32_rows attention_pool_def ex32_weights ex32_facts(2) upt_small f32_arith_simps
      fsum_def f32_round_0 f32_round_small f32_round_2_24 f32_round_near_one)

text \<open>The float32 model whose first layer overflows: every logit is infinite.\<close>

lemma ovf_inv: "usernet_inv ovf_net"
  unfolding ovf_net_def by (rule usernet_inv_init)

lemma ovf_facts:
  "feats ovf_net = None" "emb_dim ovf_net = 1"
  "user_dict ovf_net ''u1'' = Some 0"
  "item_dict ovf_net ''a'' = Some 0" "item_dict ovf_net ''b'' = Some 1"
  "user_embedding ovf_net = [[Fin 170141183460469231731687303715884105728]]"
  "item_embedding ovf_net = [[Fin 1], [Fin 1]]"
  "l1 ovf_net = \<lparr>in_features = 2, out_features = 1, weight = [[Fin 4, Fin 0]],
                  bias = [Fin 0]\<rparr>"
  "l2 ovf_net = \<lparr>in_features = 1, out_features = 1, weight = [[Fin 1]], bias = [Fin 0]\<rparr>"
  by (simp_all add: ovf_net_def UserNet_init_def create_dict_def tabulate2_def ovf_iv_def
      kaiming_linear_def upt_small replicate_small f32_arith_simps f32_round_0
      eval_nat_numeral)

lemma ovf_known: "known_items ovf_net [''a'', ''b'']" "known_items ovf_net [''a'']"
  by (simp_all add: known_items_def ovf_facts)

lemma ovf_rows: "user_row ovf_net ''u1'' = [Fin 170141183460469231731687303715884105728]"
  "item_rows ovf_net [''a'', ''b''] = [[Fin 1], [Fin 1]]"
  "item_rows ovf_net [''a''] = [[Fin 1]]"
  by (simp_all add: user_row_def item_rows_def ovf_facts)

lemma ovf_logit: "item_logit f32_arith ovf_net [Fin 170141183460469231731687303715884105728] [Fin 1] = PInf"
  by (simp add: item_logit_def affine_def ovf_facts f32_arith_simps fsum_def f32_round_0
      f32_round_overflow [simplified])

lemma ovf_weights:
  "kernel_weights f32_arith ovf_net [Fin 170141183460469231731687303715884105728] [[Fin 1], [Fin 1]] = [NaN, NaN]"
  "kernel_weights f32_arith ovf_net [Fin 170141183460469231731687303715884105728] [[Fin 1]] = [NaN]"
  by (simp_all add: kernel_weights_def ovf_logit f32_arith_simps fsoftmax_def fsub_def fsum_def)

subsection \<open>Programs on the module object\<close>

lemma lift_run: "lift r s = (r, s)"
  by (simp add: lift_def)

lemma bind_m_lift:
  "bind_m (lift r) f s = (case r of Inl e \<Rightarrow> (Inl e, s) | Inr v \<Rightarrow> f v s)"
  by (simp add: bind_m_def lift_def split: sum.splits)

lemma bind_m_attr: "bind_m (attr g) f s = f (g (obj s)) s"
  by (simp add: bind_m_def attr_def)

lemma bind_m_run:
  "m s = (r, s) \<Longrightarrow> bind_m m f s = (case r of Inl e \<Rightarrow> (Inl e, s) | Inr v \<Rightarrow> f v s)"
  by (simp add: bind_m_def split: sum.splits)

lemma u_get_user_m_run: "u_get_user_m user_id s = (u_get_user (obj s) user_id, s)"
  by (simp add: u_get_user_m_def u_get_user_def bind_m_attr lift_run)

lemma u_get_items_m_run: "u_get_items_m items s = (u_get_items (obj s) items, s)"
  by (simp add: u_get_items_m_def u_get_items_def bind_m_attr bind_m_lift lift_run
      bind_err_def split: sum.splits)

lemma get_items_m_run: "get_items_m item_ids s = (get_items (obj s) item_ids, s)"
  by (simp add: get_items_m_def get_items_def bind_m_run [OF u_get_items_m_run] bind_m_attr
      lift_run bind_err_def split: sum.splits)

lemma components_m_run:
  "(case feats (obj s) of
      Some fn \<Rightarrow> bind_m (lift (torch_tensor ar features))
                  (\<lambda>t. lift (FeatureNet_forward ar fn user t))
    | None \<Rightarrow> lift (Inr (Vec []))) s =
   (forward_components ar (obj s) user features, s)"
  by (simp add: forward_components_def bind_m_lift lift_run bind_err_def
      split: option.splits sum.splits)

lemma forward_m_run:
  "forward_m ar user_id item_ids features s = (forward ar (obj s) user_id item_ids features, s)"
  unfolding forward_m_def forward_def attention_weights_def
  by (simp add: bind_m_run [OF u_get_user_m_run] bind_m_run [OF u_get_items_m_run]
      bind_m_run [OF components_m_run] bind_m_attr bind_m_lift lift_run bind_err_def
      split: sum.splits)

lemma score_m_run: "score_m ar user items s = (score ar user items, s)"
  by (simp add: score_m_def lift_def)

text \<open>
  By contrast \<^verbatim>\<open>_kaiming_\<close> draws from the generator and assigns to the object: a
  single draw already moves the generator.
\<close>

lemma draw_moves: "rng_pos (snd (draw s)) = Suc (rng_pos s)"
  by (simp add: draw_def)

lemma draw_list_run:
  "draw_list n s =
   (Inr (map (\<lambda>k. rng s (rng_pos s + k)) [0..<n]), s\<lparr>rng_pos := rng_pos s + n\<rparr>)"
proof (induction n arbitrary: s)
  case 0
  then show ?case by (simp add: lift_def)
next
  case (Suc n)
  have "map (\<lambda>k. rng s (rng_pos s + k)) [0..<Suc n] =
      rng s (rng_pos s) # map (\<lambda>k. rng s (Suc (rng_pos s + k))) [0..<n]"
    by (simp add: upt_conv_Cons map_Suc_upt [symmetric] del: upt_Suc)
  then show ?case
    by (simp add: bind_m_def draw_def Suc.IH lift_def del: upt_Suc)
qed

lemma draw_rows_run:
  "\<exists>rows. draw_rows r c s = (Inr rows, s\<lparr>rng_pos := rng_pos s + r * c\<rparr>)"
proof (induction r arbitrary: s)
  case 0
  show ?case by (simp add: lift_def)
next
  case (Suc r)
  from Suc.IH [of "s\<lparr>rng_pos := rng_pos s + c\<rparr>"] obtain rows
    where "draw_rows r c (s\<lparr>rng_pos := rng_pos s + c\<rparr>) =
      (Inr rows, s\<lparr>rng_pos := rng_pos s + c + r * c\<rparr>)"
    by auto
  then show ?case
    by (simp add: bind_m_def draw_list_run lift_def add.assoc del: upt_Suc)
qed

lemma kaiming_m_moves:
  "rng_pos (snd (kaiming_m ar layer put s)) =
   rng_pos s + out_features (layer (obj s)) * in_features (layer (obj s))"
proof -
  let ?lin = "layer (obj s)"
  from draw_rows_run [of "out_features ?lin" "in_features ?lin" s] obtain rows
    where "draw_rows (out_features ?lin) (in_features ?lin) s =
      (Inr rows, s\<lparr>rng_pos := rng_pos s + out_features ?lin * in_features ?lin\<rparr>)"
    by auto
  then show ?thesis
    unfolding kaiming_m_def bind_m_attr by (simp add: bind_m_def set_attr_def)
qed

section \<open>Claims\<close>

text \<open>
  Claim C7. For ordered lists of unique identities given at construction, the dictionary
  built by \<^verbatim>\<open>_create_dict\<close> maps the i-th identity to index i; its keys are the
  identities, and it is a bijection from them onto \<open>[0, count)\<close>. No call of
  \<^verbatim>\<open>forward\<close>, \<^verbatim>\<open>get_items\<close> or \<^verbatim>\<open>score\<close> modifies a dictionary.
\<close>

theorem identity_dictionary_bijection:
  assumes "distinct users" and "distinct items"
  shows "(\<forall>i < length users.
            user_dict (UserNet_init ar users items D F iv) (users ! i) = Some i)
       \<and> (\<forall>i < length items.
            item_dict (UserNet_init ar users items D F iv) (items ! i) = Some i)
       \<and> dom (user_dict (UserNet_init ar users items D F iv)) = set users
       \<and> dom (item_dict (UserNet_init ar users items D F iv)) = set items
       \<and> bij_betw (\<lambda>k. the (user_dict (UserNet_init ar users items D F iv) k))
            (set users) {0..<length users}
       \<and> bij_betw (\<lambda>k. the (item_dict (UserNet_init ar users items D F iv) k))
            (set items) {0..<length items}
       \<and> user_dict (obj (snd (forward_m ar' user_id item_ids features s))) = user_dict (obj s)
       \<and> item_dict (obj (snd (forward_m ar' user_id item_ids features s))) = item_dict (obj s)
       \<and> user_dict (obj (snd (get_items_m item_ids s))) = user_dict (obj s)
       \<and> item_dict (obj (snd (get_items_m item_ids s))) = item_dict (obj s)
       \<and> user_dict (obj (snd (score_m ar' u Is s))) = user_dict (obj s)
       \<and> item_dict (obj (snd (score_m ar' u Is s))) = item_dict (obj s)"
  using assms
  by (simp add: user_dict_init item_dict_init create_dict_nth dom_create_dict create_dict_bij
      forward_m_run get_items_m_run score_m_run)

theorem identity_dictionary_bijection_witness:
  "distinct [''u1'', ''u2''] \<and> distinct [''a'', ''b'', ''c'']
   \<and> user_dict ex_net ''u2'' = Some 1
   \<and> item_dict ex_net ''c'' = Some 2
   \<and> dom (item_dict ex_net) = {''a'', ''b'', ''c''}
   \<and> bij_betw (\<lambda>k. the (item_dict ex_net k)) {''a'', ''b'', ''c''} {0..<3}
   \<and> item_dict (obj (snd (forward_m real_arith ''u1'' [''a'', ''b''] PyNone
         \<lparr>obj = ex_net, rng = (\<lambda>n. 0), rng_pos = 0\<rparr>))) = item_dict ex_net"
proof -
  have d: "distinct [''u1'', ''u2'']" "distinct [''a'', ''b'', ''c'']"
    by simp_all
  note t = identity_dictionary_bijection [OF d, of real_arith 2 0 ex_iv real_arith "''u1''"
      "[''a'', ''b'']" PyNone "\<lparr>obj = ex_net, rng = (\<lambda>n. 0), rng_pos = 0\<rparr>" "[]" "Matrix 0 []",
      folded ex_net_def]
  from t have "\<forall>i < length [''u1'', ''u2'']. user_dict ex_net ([''u1'', ''u2''] ! i) = Some i"
    by (rule conjunct1)
  from this [rule_format, of 1] have "user_dict ex_net ''u2'' = Some 1"
    by simp
  moreover from t
  have "\<forall>i < length [''a'', ''b'', ''c'']. item_dict ex_net ([''a'', ''b'', ''c''] ! i) = Some i"
    by blast
  from this [rule_format, of 2] have "item_dict ex_net ''c'' = Some 2"
    by simp
  moreover from t have "dom (item_dict ex_net) = set [''a'', ''b'', ''c'']"
    by blast
  moreover from t have "bij_betw (\<lambda>k. the (item_dict ex_net k)) (set [''a'', ''b'', ''c''])
      {0..<length [''a'', ''b'', ''c'']}"
    by blast
  moreover from t
  have "item_dict (obj (snd (forward_m real_arith ''u1'' [''a'', ''b''] PyNone
         \<lparr>obj = ex_net, rng = (\<lambda>n. 0), rng_pos = 0\<rparr>))) = item_dict ex_net"
    by simp
  ultimately show ?thesis
    using d by (simp add: eval_nat_numeral)
qed

subsection \<open>Attention pooling\<close>




lemma f32_unit:
  assumes "f32_ok v"
  shows "fmul v (Fin 1) = v" and "fsum [v] = v"
  using assms by (cases v; simp add: fsum_def)+

lemma fsoftmax_single: "fsoftmax [Fin z] = [Fin 1]"
  by (simp add: fsoftmax_def fsub_def fsum_def f32_round_0 f32_round_small)

text \<open>
  As stated, Claim C2 says that with a single item the weight is exactly 1 and the
  result is the user row plus the item row. In float32, when the logit overflows, the
  weight and the result are NaN.
\<close>

theorem single_item_weight_counterexample:
  "bind_err (forward_concat (user_row ovf_net ''u1'') (item_rows ovf_net [''a'']) (Vec []))
     (attention_weights f32_arith ovf_net) = Inr (Mat [[NaN]])
   \<and> Mat [[NaN]] \<noteq> Mat [[Fin 1]]
   \<and> forward f32_arith ovf_net ''u1'' [''a''] PyNone = Inr [NaN]
   \<and> map2 fadd (user_row ovf_net ''u1'') (item_embedding ovf_net ! 0) =
       [Fin 170141183460469231731687303715884105728]"
proof -
  have ne: "[''a''] \<noteq> []"
    by simp
  from weights_closed_form [OF ovf_inv ovf_facts(1) ovf_facts(3) ovf_known(2) ne, of f32_arith]
  have "bind_err (forward_concat (user_row ovf_net ''u1'') (item_rows ovf_net [''a'']) (Vec []))
     (attention_weights f32_arith ovf_net) = Inr (Mat [[NaN]])"
    by (simp add: ovf_rows ovf_weights upt_small)
  moreover
  from forward_closed_form [OF ovf_inv ovf_facts(1) ovf_facts(3) ovf_known(2) ne,
      of f32_arith PyNone]
  have "forward f32_arith ovf_net ''u1'' [''a''] PyNone = Inr [NaN]"
    by (simp add: ovf_rows ovf_weights upt_small attention_pool_def ovf_facts(2)
        f32_arith_simps fsum_def)
  moreover
  have "f32_round 170141183460469231731687303715884105729 =
      Fin 170141183460469231731687303715884105728"
    using f32_round_at [of 127 170141183460469231731687303715884105729]
    by (simp add: f32_eval)
  then have "map2 fadd (user_row ovf_net ''u1'') (item_embedding ovf_net ! 0) =
      [Fin 170141183460469231731687303715884105728]"
    by (simp add: ovf_rows ovf_facts)
  ultimately show ?thesis
    by simp
qed

text \<open>
  Claim C2, amended. For a known user id and a single known item id, with fusion
  disabled, and when the logit of the item is finite in float32, the attention weight
  that lines 98 to 106 compute is exactly 1.0 and \<^verbatim>\<open>forward\<close> returns the float32
  sum of the user's embedding row and the item's embedding row.
\<close>

theorem single_item_weight_is_one:
  assumes "usernet_inv self" and "feats self = None"
    and "user_dict self user_id = Some ui"
    and "item_dict self item_id = Some ii"
    and "item_logit f32_arith self (user_row self user_id) (item_embedding self ! ii) = Fin z"
    and "list_all f32_ok (item_embedding self ! ii)"
  shows "bind_err (forward_concat (user_row self user_id) [item_embedding self ! ii] (Vec []))
           (attention_weights f32_arith self) = Inr (Mat [[Fin 1]])
       \<and> forward f32_arith self user_id [item_id] features =
           Inr (map2 fadd (user_row self user_id) (item_embedding self ! ii))"
proof -
  let ?u = "user_row self user_id"
  let ?i = "item_embedding self ! ii"
  note p = usernet_inv_parts [OF assms(1)]
  have k: "known_items self [item_id]"
    by (simp add: known_items_def assms(4))
  have ne: "[item_id] \<noteq> []"
    by simp
  have r: "item_rows self [item_id] = [?i]"
    by (simp add: item_rows_def assms(4))
  have w: "kernel_weights f32_arith self ?u [?i] = [Fin 1]"
    by (simp add: kernel_weights_def assms(5) f32_arith_simps fsoftmax_single)
  have li: "length ?i = emb_dim self"
    using item_rows_width [OF p(2) k] by (simp add: r)
  have "fsum [fmul (?i ! d) (Fin 1)] = ?i ! d" if "d < emb_dim self" for d
  proof -
    from that li assms(6) have "f32_ok (?i ! d)"
      by (simp add: list_all_length)
    then show ?thesis
      by (simp add: f32_unit)
  qed
  then have "attention_pool f32_arith self ?u [?i] = map (\<lambda>d. ?i ! d) [0..<emb_dim self]"
    by (simp add: attention_pool_def w f32_arith_simps cong: map_cong)
  also have "\<dots> = ?i"
    using map_nth [of ?i] by (simp add: li)
  finally have pool: "attention_pool f32_arith self ?u [?i] = ?i" .
  from weights_closed_form [OF assms(1,2,3) k ne, of f32_arith]
  have "bind_err (forward_concat ?u [?i] (Vec [])) (attention_weights f32_arith self) =
      Inr (Mat [[Fin 1]])"
    by (simp add: r w)
  moreover from forward_closed_form [OF assms(1,2,3) k ne, of f32_arith features]
  have "forward f32_arith self user_id [item_id] features = Inr (map2 fadd ?u ?i)"
    by (simp add: r pool f32_arith_simps)
  ultimately show ?thesis
    by simp
qed

theorem single_item_weight_is_one_witness:
  "usernet_inv ex32_net \<and> feats ex32_net = None \<and> user_dict ex32_net ''u1'' = Some 0
   \<and> item_dict ex32_net ''b'' = Some 1
   \<and> item_logit f32_arith ex32_net (user_row ex32_net ''u1'') (item_embedding ex32_net ! 1) =
       Fin 0
   \<and> list_all f32_ok (item_embedding ex32_net ! 1)
   \<and> bind_err (forward_concat [Fin 0] [[Fin 3]] (Vec [])) (attention_weights f32_arith ex32_net) =
       Inr (Mat [[Fin 1]])
   \<and> forward f32_arith ex32_net ''u1'' [''b''] PyNone = Inr [Fin 3]"
proof -
  have l: "item_logit f32_arith ex32_net (user_row ex32_net ''u1'')
      (item_embedding ex32_net ! 1) = Fin 0"
    by (simp add: ex32_rows ex32_facts ex32_logit)
  have ok: "list_all f32_ok (item_embedding ex32_net ! 1)"
    by (simp add: ex32_facts f32_round_small)
  from single_item_weight_is_one [OF ex32_inv ex32_facts(1) ex32_facts(3) ex32_facts(5) l ok,
      of PyNone]
  have "bind_err (forward_concat [Fin 0] [[Fin 3]] (Vec [])) (attention_weights f32_arith ex32_net) =
       Inr (Mat [[Fin 1]])
     \<and> forward f32_arith ex32_net ''u1'' [''b''] PyNone = Inr [Fin 3]"
    by (simp add: ex32_rows ex32_facts f32_round_small)
  with l ok ex32_inv ex32_facts(1,3,5) show ?thesis
    by simp
qed

subsection \<open>Reordering the items\<close>

lemma sum_list_map_mset:
  fixes f :: "'a \<Rightarrow> real"
  shows "mset xs = mset ys \<Longrightarrow> (\<Sum>x \<leftarrow> xs. f x) = (\<Sum>y \<leftarrow> ys. f y)"
proof -
  assume "mset xs = mset ys"
  then have "mset (map f xs) = mset (map f ys)"
    by (metis mset_map)
  then show ?thesis
    by (metis sum_mset_sum_list)
qed

lemma spec_weighted_sum_mset:
  assumes "mset Is' = mset Is"
  shows "spec_weighted_sum (spec_weights self u Is') Is' D =
         spec_weighted_sum (spec_weights self u Is) Is D"
  unfolding spec_weighted_sum_list
  by (simp add: sum_list_map_mset [OF assms, of "\<lambda>i. exp (spec_logit self u i)"]
      sum_list_map_mset [OF assms])

lemma known_items_mset:
  "mset ks' = mset ks \<Longrightarrow> known_items self ks' = known_items self ks"
  by (auto simp: known_items_def list_all_iff dest: mset_eq_setD)

lemma item_rows_mset:
  "mset ks' = mset ks \<Longrightarrow> mset (item_rows self ks') = mset (item_rows self ks)"
  by (metis item_rows_def mset_map)

lemma forward_outcome:
  assumes "usernet_inv self" and "feats self = None"
  shows "map_sum id length (forward ar self user_id item_ids features) =
         (case user_dict self user_id of
            None \<Rightarrow> Inl KeyError
          | Some ui \<Rightarrow>
              if \<not> known_items self item_ids then Inl KeyError
              else if item_ids = [] then Inl RuntimeError
              else Inr (emb_dim self))"
proof (cases "user_dict self user_id")
  case None
  then show ?thesis
    by (simp add: forward_unknown_user)
next
  case (Some ui)
  note p = usernet_inv_parts [OF assms(1)]
  show ?thesis
  proof (cases "known_items self item_ids")
    case False
    then show ?thesis
      by (simp add: Some forward_unknown_item [OF p(1) Some])
  next
    case True
    show ?thesis
    proof (cases "item_ids = []")
      case True
      then show ?thesis
        by (simp add: Some forward_no_items [OF p(1) Some] known_items_def)
    next
      case False
      then show ?thesis
        by (simp add: Some True forward_closed_form [OF assms Some True False]
            user_row_width [OF p(1) Some] length_attention_pool)
    qed
  qed
qed

text \<open>
  As stated, Claim C10 says that a permutation of the item ids leaves the result of
  \<^verbatim>\<open>forward\<close> unchanged. In float32 the sum over the items depends on their order:
  with weights near 1/3 and the items \<open>3\<cdot>2^24\<close>, \<open>3\<close>, \<open>-3\<cdot>2^24\<close> the weighted rows
  are \<open>2^24\<close>, \<open>1\<close>, \<open>-2^24\<close>, whose sum is 0 in the order a, b, c and 1 in the order
  a, c, b.
\<close>

theorem score_user_permutation_counterexample:
  "mset [''a'', ''c'', ''b''] = mset [''a'', ''b'', ''c'']
   \<and> forward f32_arith ex32_net ''u1'' [''a'', ''b'', ''c''] PyNone = Inr [Fin 0]
   \<and> forward f32_arith ex32_net ''u1'' [''a'', ''c'', ''b''] PyNone = Inr [Fin 1]
   \<and> forward f32_arith ex32_net ''u1'' [''a'', ''c'', ''b''] PyNone \<noteq>
       forward f32_arith ex32_net ''u1'' [''a'', ''b'', ''c''] PyNone"
  by (simp add: ex32_forward_abc ex32_forward_acb add.commute)

text \<open>
  Claim C10, amended. With fusion disabled, a permutation of the list of item ids does
  not change the outcome of \<^verbatim>\<open>forward\<close> up to rounding: in every arithmetic both
  orders raise the same exception or both return a vector of \<open>emb_dim\<close> entries, and in
  exact real arithmetic the two vectors are equal. In float32 the sums over the items
  are taken in the order of the list, and the two vectors can differ.
\<close>

theorem score_user_permutation_invariant:
  assumes "mset item_ids' = mset item_ids"
    and "usernet_inv self" and "feats self = None"
    and "usernet_inv rself" and "feats rself = None"
  shows "map_sum id length (forward ar self user_id item_ids' features) =
         map_sum id length (forward ar self user_id item_ids features)
       \<and> forward real_arith rself user_id item_ids' features =
         forward real_arith rself user_id item_ids features"
proof -
  have e: "(item_ids' = []) = (item_ids = [])"
    using assms(1) by (metis mset_zero_iff)
  have g: "map_sum id length (forward ar self user_id item_ids' features) =
      map_sum id length (forward ar self user_id item_ids features)"
    by (simp add: forward_outcome [OF assms(2,3)] known_items_mset [OF assms(1)] e)
  have "forward real_arith rself user_id item_ids' features =
      forward real_arith rself user_id item_ids features"
  proof (cases "user_dict rself user_id")
    case None
    then show ?thesis
      by (simp add: forward_unknown_user)
  next
    case (Some ui)
    note p = usernet_inv_parts [OF assms(4)]
    show ?thesis
    proof (cases "known_items rself item_ids")
      case False
      moreover from False have "\<not> known_items rself item_ids'"
        by (simp add: known_items_mset [OF assms(1)])
      ultimately show ?thesis
        by (simp add: forward_unknown_item [OF p(1) Some])
    next
      case True
      then have k': "known_items rself item_ids'"
        by (simp add: known_items_mset [OF assms(1)])
      show ?thesis
      proof (cases "item_ids = []")
        case True
        with e show ?thesis by simp
      next
        case False
        with e have ne': "item_ids' \<noteq> []"
          by simp
        show ?thesis
          by (simp add: forward_real_spec [OF assms(4,5) Some True False]
              forward_real_spec [OF assms(4,5) Some k' ne']
              spec_weighted_sum_mset [OF item_rows_mset [OF assms(1)]])
      qed
    qed
  qed
  with g show ?thesis
    by simp
qed

theorem score_user_permutation_invariant_witness:
  "mset [''a'', ''c'', ''b''] = mset [''a'', ''b'', ''c'']
   \<and> usernet_inv ex32_net \<and> feats ex32_net = None
   \<and> usernet_inv ex_net \<and> feats ex_net = None
   \<and> map_sum id length (forward f32_arith ex32_net ''u1'' [''a'', ''c'', ''b''] PyNone) = Inr 1
   \<and> map_sum id length (forward f32_arith ex32_net ''u1'' [''a'', ''b'', ''c''] PyNone) = Inr 1
   \<and> forward real_arith ex_net ''u1'' [''a'', ''c'', ''b''] PyNone =
       forward real_arith ex_net ''u1'' [''a'', ''b'', ''c''] PyNone"
proof -
  have m: "mset [''a'', ''c'', ''b''] = mset [''a'', ''b'', ''c'']"
    by (simp add: add.commute)
  from score_user_permutation_invariant [OF m ex32_inv ex32_facts(1) ex_net_inv ex_feats(1),
      of f32_arith "''u1''" PyNone]
    m ex32_inv ex32_facts(1) ex_net_inv ex_feats(1)
  show ?thesis
    by (simp add: ex32_forward_abc)
qed

subsection \<open>The static score\<close>

lemma map2_replicate: "map2 f (replicate (length ys) x) ys = map (f x) ys"
  by (induction ys) simp_all

lemma score_rows:
  assumes "mat_cols I = length u" "list_all (\<lambda>r. length r = length u) (mat_rows I)"
  shows "score ar u I = Inr (map (row_dot ar u) (mat_rows I))"
proof -
  let ?U = "replicate (length (mat_rows I)) u"
  let ?A = "Matrix (length u) ?U"
  have n: "(if length (mat_rows ?A) = 1 then length (mat_rows I) else length (mat_rows ?A)) =
      length (mat_rows I)"
    by simp
  have k: "(if mat_cols ?A = 1 then mat_cols I else mat_cols ?A) = length u"
    by (simp add: assms(1))
  have b: "bcast_ok (length (mat_rows ?A)) (length (mat_rows I))
      \<and> bcast_ok (mat_cols ?A) (mat_cols I)"
    by (simp add: bcast_ok_def assms(1))
  have e: "expand_rows (mat_rows ?A) (length (mat_rows I)) = ?U"
    "expand_rows (mat_rows I) (length (mat_rows I)) = mat_rows I"
    by (simp_all add: expand_rows_def)
  have m: "map2 (bcast_row (a_mul ar)) ?U (mat_rows I) =
      map (\<lambda>i. map2 (a_mul ar) u i) (mat_rows I)"
  proof -
    have "map2 (bcast_row (a_mul ar)) ?U (mat_rows I) = map (bcast_row (a_mul ar) u) (mat_rows I)"
      by (rule map2_replicate)
    also have "\<dots> = map (\<lambda>i. map2 (a_mul ar) u i) (mat_rows I)"
      using assms(2) by (intro map_cong refl) (simp add: bcast_row_def list_all_iff)
    finally show ?thesis .
  qed
  have "matrix_mul ar ?A I =
      Inr (Matrix (length u) (map (\<lambda>i. map2 (a_mul ar) u i) (mat_rows I)))"
    unfolding matrix_mul_def Let_def n k e m using b by (simp only: if_True simp_thms)
  then show ?thesis
    by (simp add: score_def bind_err_def sum1_def row_dot_def comp_def)
qed

lemma score_shape_error:
  "\<not> bcast_ok (length u) (mat_cols I) \<Longrightarrow> score ar u I = Inl RuntimeError"
  by (simp add: score_def matrix_mul_def bind_err_def)

lemma row_dot_real_spec:
  assumes "length i = length u"
  shows "row_dot real_arith u i = spec_dot u i"
  using sum_list_map2_nth [of i u] assms
  by (simp add: row_dot_def spec_dot_def real_arith_simps mult.commute)

lemma spec_dot_linear:
  assumes "length r1 = length u" "length r2 = length u"
  shows "spec_dot u (map2 (\<lambda>x y. a * x + b * y) r1 r2) = a * spec_dot u r1 + b * spec_dot u r2"
proof -
  have "(\<Sum>k < length u. u ! k * map2 (\<lambda>x y. a * x + b * y) r1 r2 ! k) =
      (\<Sum>k < length u. a * (u ! k * r1 ! k) + b * (u ! k * r2 ! k))"
    using assms by (intro sum.cong refl) (simp add: algebra_simps)
  then show ?thesis
    by (simp add: spec_dot_def sum.distrib sum_distrib_left)
qed

lemma mat_lin_rows:
  assumes "list_all (\<lambda>r. length r = n) (mat_rows I1)" "list_all (\<lambda>r. length r = n) (mat_rows I2)"
  shows "list_all (\<lambda>r. length r = n) (mat_rows (mat_lin ar a I1 b I2))"
  using assms by (auto simp: mat_lin_def list_all_iff elim!: in_set_zipE)

lemma spec_dot_mat_lin:
  assumes "length R1 = length R2"
    and "list_all (\<lambda>r. length r = length u) R1" "list_all (\<lambda>r. length r = length u) R2"
  shows "map (spec_dot u) (map2 (map2 (\<lambda>x y. a * x + b * y)) R1 R2) =
         map2 (\<lambda>x y. a * x + b * y) (map (spec_dot u) R1) (map (spec_dot u) R2)"
  using assms by (induction R1 R2 rule: list_induct2) (simp_all add: spec_dot_linear)

text \<open>
  As stated, Claim C3 says that \<^verbatim>\<open>score\<close> is linear in the item matrix. In float32,
  with \<open>u = [3]\<close>, \<open>I1 = [[2^24]]\<close>, \<open>I2 = [[1]]\<close> and \<open>a = b = 1\<close>, the matrix
  \<open>a\<cdot>I1 + b\<cdot>I2\<close> rounds to \<open>[[2^24]]\<close> and its score is \<open>3\<cdot>2^24 = 50331648\<close>, while
  \<open>a\<cdot>score(u, I1) + b\<cdot>score(u, I2)\<close> is \<open>50331648 + 3\<close> rounded, which is 50331652.
\<close>

theorem score_linearity_counterexample:
  "score f32_arith [Fin 3]
     (mat_lin f32_arith (Fin 1) (Matrix 1 [[Fin 16777216]]) (Fin 1) (Matrix 1 [[Fin 1]])) =
     Inr [Fin 50331648]
   \<and> score f32_arith [Fin 3] (Matrix 1 [[Fin 16777216]]) = Inr [Fin 50331648]
   \<and> score f32_arith [Fin 3] (Matrix 1 [[Fin 1]]) = Inr [Fin 3]
   \<and> vec_lin f32_arith (Fin 1) [Fin 50331648] (Fin 1) [Fin 3] = [Fin 50331652]
   \<and> [Fin 50331648] \<noteq> [Fin 50331652]"
  by (simp add: score_rows mat_lin_def vec_lin_def row_dot_def f32_arith_simps fsum_def
      f32_round_0 f32_round_small f32_round_2_24 f32_round_2_25)

text \<open>
  Claim C3, amended. For a user vector of width \<open>D\<close> and an \<open>N \<times> D\<close> item matrix, the
  static \<^verbatim>\<open>score\<close> returns the vector of \<open>N\<close> entries whose n-th entry is the
  library's sum of the elementwise products of the user vector with row n; a matrix
  whose width does not broadcast against the user vector raises. In exact real
  arithmetic the entries are the dot products and \<^verbatim>\<open>score\<close> is linear in the item
  matrix: \<open>score(u, a\<cdot>I1 + b\<cdot>I2) = a\<cdot>score(u, I1) + b\<cdot>score(u, I2)\<close> for matrices of
  one shape. In float32 the two sides are rounded separately and can differ.
\<close>

theorem score_rowwise_dot_linear:
  assumes "mat_cols I = length u" and "list_all (\<lambda>r. length r = length u) (mat_rows I)"
    and "mat_cols I1 = length ru" and "list_all (\<lambda>r. length r = length ru) (mat_rows I1)"
    and "mat_cols I2 = length ru" and "list_all (\<lambda>r. length r = length ru) (mat_rows I2)"
    and "length (mat_rows I1) = length (mat_rows I2)"
  shows "score ar u I = Inr (map (row_dot ar u) (mat_rows I))
       \<and> length (map (row_dot ar u) (mat_rows I)) = length (mat_rows I)
       \<and> (\<not> bcast_ok (length u) (mat_cols J) \<longrightarrow> score ar u J = Inl RuntimeError)
       \<and> score real_arith ru I1 = Inr (map (spec_dot ru) (mat_rows I1))
       \<and> score real_arith ru I2 = Inr (map (spec_dot ru) (mat_rows I2))
       \<and> score real_arith ru (mat_lin real_arith a I1 b I2) =
           Inr (vec_lin real_arith a (map (spec_dot ru) (mat_rows I1))
                  b (map (spec_dot ru) (mat_rows I2)))"
proof -
  have d: "map (row_dot real_arith ru) R = map (spec_dot ru) R"
    if "list_all (\<lambda>r. length r = length ru) R" for R
    using that by (auto simp: list_all_iff row_dot_real_spec)
  have c: "mat_cols (mat_lin real_arith a I1 b I2) = length ru"
    by (simp add: mat_lin_def assms(3))
  note w = mat_lin_rows [OF assms(4,6), of real_arith a b]
  have "map (spec_dot ru) (mat_rows (mat_lin real_arith a I1 b I2)) =
      vec_lin real_arith a (map (spec_dot ru) (mat_rows I1)) b (map (spec_dot ru) (mat_rows I2))"
    using spec_dot_mat_lin [OF assms(7,4,6), of a b]
    by (simp add: mat_lin_def vec_lin_def real_arith_simps)
  then show ?thesis
    by (simp add: score_rows [OF assms(1,2)] score_rows [OF assms(3,4)]
        score_rows [OF assms(5,6)] score_rows [OF c w] d [OF assms(4)] d [OF assms(6)]
        d [OF w] score_shape_error)
qed

theorem score_rowwise_dot_linear_witness:
  "mat_cols (Matrix 2 [[1, 0], [0, 1]]) = length [1, 2 :: real]
   \<and> list_all (\<lambda>r. length r = length [1, 2 :: real]) (mat_rows (Matrix 2 [[1, 0], [0, 1]]))
   \<and> mat_cols (Matrix 2 [[3, 4], [5, 6]]) = length [1, 2 :: real]
   \<and> list_all (\<lambda>r. length r = length [1, 2 :: real]) (mat_rows (Matrix 2 [[3, 4], [5, 6]]))
   \<and> \<not> bcast_ok (length [1, 2 :: real]) (mat_cols (Matrix 3 ([] :: real list list)))
   \<and> score real_arith [1, 2] (Matrix 3 []) = Inl RuntimeError
   \<and> score real_arith [1, 2] (Matrix 2 []) = Inr []
   \<and> score real_arith [1, 2] (Matrix 2 [[1, 0], [0, 1]]) = Inr [1, 2]
   \<and> score real_arith [1, 2] (Matrix 2 [[3, 4], [5, 6]]) = Inr [11, 17]
   \<and> score real_arith [1, 2]
         (mat_lin real_arith 2 (Matrix 2 [[1, 0], [0, 1]]) 3 (Matrix 2 [[3, 4], [5, 6]])) =
       Inr [35, 55]"
proof -
  have h: "mat_cols (Matrix 2 [[1, 0], [0, 1]]) = length [1, 2 :: real]"
    "list_all (\<lambda>r. length r = length [1, 2 :: real]) (mat_rows (Matrix 2 [[1, 0], [0, 1]]))"
    "mat_cols (Matrix 2 [[1, 0], [0, 1]]) = length [1, 2 :: real]"
    "list_all (\<lambda>r. length r = length [1, 2 :: real]) (mat_rows (Matrix 2 [[1, 0], [0, 1]]))"
    "mat_cols (Matrix 2 [[3, 4], [5, 6]]) = length [1, 2 :: real]"
    "list_all (\<lambda>r. length r = length [1, 2 :: real]) (mat_rows (Matrix 2 [[3, 4], [5, 6]]))"
    "length (mat_rows (Matrix 2 [[1, 0], [0, 1 :: real]])) =
     length (mat_rows (Matrix 2 [[3, 4], [5, 6 :: real]]))"
    by simp_all
  have e: "mat_cols (Matrix 2 []) = length [1, 2 :: real]"
    "list_all (\<lambda>r. length r = length [1, 2 :: real]) (mat_rows (Matrix 2 []))"
    by simp_all
  have n: "\<not> bcast_ok (length [1, 2 :: real]) (mat_cols (Matrix 3 ([] :: real list list)))"
    by (simp add: bcast_ok_def)
  from score_rowwise_dot_linear [OF h, of real_arith "Matrix 3 []" 2 3]
    score_rowwise_dot_linear [OF e h(3-7), of real_arith "Matrix 3 []" 2 3] h n
  show ?thesis
    by (simp add: spec_dot_def vec_lin_def real_arith_simps sum_lessThan_small)
qed

subsection \<open>Exceptions\<close>

text \<open>
  Claim C4. A user id absent from the user dictionary, and an item list containing an id
  absent from the item dictionary, make \<^verbatim>\<open>forward\<close> and \<^verbatim>\<open>get_items\<close> raise
  \<^verbatim>\<open>KeyError\<close> (the specification's UnknownIdentity) instead of returning a default;
  the lookups of known ids succeed, and so does \<^verbatim>\<open>get_items\<close> on a non-empty list of
  known ids.
\<close>

theorem unknown_identity_raises_key_error:
  "(user_dict self user_id = None \<longrightarrow>
      u_get_user self user_id = Inl KeyError
      \<and> forward ar self user_id item_ids features = Inl KeyError)
   \<and> (\<not> known_items self item_ids \<longrightarrow>
      u_get_items self item_ids = Inl KeyError
      \<and> get_items self item_ids = Inl KeyError)
   \<and> (usernet_inv self \<and> user_dict self user_id \<noteq> None \<and> \<not> known_items self item_ids \<longrightarrow>
      forward ar self user_id item_ids features = Inl KeyError)
   \<and> (user_dict self user_id = Some ui \<longrightarrow> u_get_user self user_id = Inr ui)
   \<and> (known_items self item_ids \<longrightarrow>
      u_get_items self item_ids =
        Inr (torch_tensor_ints (map (\<lambda>k. the (item_dict self k)) item_ids)))
   \<and> (usernet_inv self \<and> known_items self item_ids \<and> item_ids \<noteq> [] \<longrightarrow>
      get_items self item_ids = Inr (item_rows self item_ids))"
proof -
  have "forward ar self user_id item_ids features = Inl KeyError"
    if "usernet_inv self" "user_dict self user_id \<noteq> None" "\<not> known_items self item_ids"
  proof -
    from that(2) obtain i where "user_dict self user_id = Some i"
      by blast
    from forward_unknown_item [OF usernet_inv_parts(1) [OF that(1)] this that(3)]
    show ?thesis .
  qed
  moreover have "get_items self item_ids = Inr (item_rows self item_ids)"
    if "usernet_inv self" "known_items self item_ids" "item_ids \<noteq> []"
    using get_items_ok [OF usernet_inv_parts(2) [OF that(1)] that(2,3)] .
  moreover have "u_get_user self user_id = Inl KeyError" if "user_dict self user_id = None"
    using that by (simp add: u_get_user_def)
  moreover have "u_get_user self user_id = Inr ui" if "user_dict self user_id = Some ui"
    using that by (simp add: u_get_user_def)
  moreover have "get_items self item_ids = Inl KeyError" if "\<not> known_items self item_ids"
    using that by (simp add: get_items_def u_get_items_unknown bind_err_def)
  ultimately show ?thesis
    by (simp add: forward_unknown_user u_get_items_unknown u_get_items_known)
qed

theorem unknown_identity_raises_key_error_witness:
  "user_dict ex_net ''zz'' = None
   \<and> forward real_arith ex_net ''zz'' [''a''] PyNone = Inl KeyError
   \<and> \<not> known_items ex_net [''a'', ''zz'']
   \<and> get_items ex_net [''a'', ''zz''] = Inl KeyError
   \<and> usernet_inv ex_net \<and> user_dict ex_net ''u1'' \<noteq> None
   \<and> forward real_arith ex_net ''u1'' [''a'', ''zz''] PyNone = Inl KeyError
   \<and> user_dict ex_net ''u2'' = Some 1 \<and> u_get_user ex_net ''u2'' = Inr 1
   \<and> known_items ex_net [''b'']
   \<and> u_get_items ex_net [''b''] = Inr (LongTensor [1])
   \<and> get_items ex_net [''b''] = Inr [[3, 6]]"
proof -
  note a = unknown_identity_raises_key_error [of ex_net "''zz''" real_arith "[''a'']" PyNone 0]
  note b = unknown_identity_raises_key_error [of ex_net "''u1''" real_arith "[''a'', ''zz'']"
      PyNone 0]
  note c = unknown_identity_raises_key_error [of ex_net "''u2''" real_arith "[''b'']" PyNone 1]
  have u1: "user_dict ex_net ''u1'' \<noteq> None"
    by (simp add: ex_user_dict)
  from a have "forward real_arith ex_net ''zz'' [''a''] PyNone = Inl KeyError"
    by (simp add: ex_user_dict)
  moreover from b have "get_items ex_net [''a'', ''zz''] = Inl KeyError"
    by (simp add: ex_known_items)
  moreover from b have "forward real_arith ex_net ''u1'' [''a'', ''zz''] PyNone = Inl KeyError"
    by (simp add: ex_known_items ex_net_inv u1)
  moreover from c have "u_get_user ex_net ''u2'' = Inr 1"
    by (simp add: ex_user_dict)
  moreover from c have "u_get_items ex_net [''b''] = Inr (LongTensor [1])"
    by (simp add: ex_known_items ex_item_dict torch_tensor_ints_def)
  moreover from c have "get_items ex_net [''b''] = Inr [[3, 6]]"
    by (simp add: ex_known_items ex_net_inv ex_rows)
  ultimately show ?thesis
    using ex_user_dict ex_known_items ex_net_inv u1 by simp
qed

text \<open>
  Claim C5 as stated says that without feature fusion the components block has shape
  \<open>N\<times>0\<close>. The source builds \<^verbatim>\<open>torch.tensor([])\<close>, whose shape is \<open>(0)\<close>: with three
  items the shape is not \<open>(3, 0)\<close>.
\<close>

theorem fusion_disabled_components_shape_counterexample:
  "map_sum id tensor_shape
     (forward_components real_arith ex_net (user_row ex_net ''u1'') PyNone) \<noteq>
   Inr [length (item_rows ex_net [''a'', ''b'', ''c'']), 0]"
  by (simp add: forward_components_def ex_feats item_rows_def)

text \<open>
  Claim C5, amended. Without feature fusion, components is the empty tensor of rank one
  and shape \<open>(0)\<close>; the concatenation skips it, so that for \<open>N \<ge> 1\<close> item rows
  \<open>[U, I, C]\<close> has shape \<open>N\<times>(2\<cdot>D)\<close> and each of its rows is the user row followed by
  the item row: the layers receive exactly the user and item columns.
\<close>

theorem fusion_disabled_concat:
  assumes "feats self = None" and "Is \<noteq> []"
    and "length u = D" and "list_all (\<lambda>r. length r = D) Is"
  shows "forward_components ar self u features = Inr (Vec [])
       \<and> tensor_shape (Vec []) = [0]
       \<and> forward_concat u Is (Vec []) = Inr (Mat (map (\<lambda>i. u @ i) Is))
       \<and> tensor_shape (Mat (map (\<lambda>i. u @ i) Is)) = [length Is, 2 * D]
       \<and> bind_err (forward_components ar self u features) (forward_concat u Is) =
           Inr (Mat (map (\<lambda>i. u @ i) Is))"
proof -
  from assms(2) obtain i rest where Is: "Is = i # rest"
    by (cases Is) auto
  with assms(4) have "length i = D"
    by simp
  then have "ncols (map (\<lambda>i. u @ i) Is) = 2 * D"
    by (simp add: Is assms(3))
  then show ?thesis
    by (simp add: forward_components_def assms(1) forward_concat_none [OF assms(2)] bind_err_def)
qed

theorem fusion_disabled_concat_witness:
  "feats ex_net = None \<and> [[0, 3], [3, 6], [6, 9]] \<noteq> ([] :: real list list)
   \<and> length [0, 1 :: real] = 2
   \<and> list_all (\<lambda>r. length r = 2) [[0, 3], [3, 6], [6, 9 :: real]]
   \<and> forward_components real_arith ex_net [0, 1] PyNone = Inr (Vec [])
   \<and> bind_err (forward_components real_arith ex_net [0, 1] PyNone)
         (forward_concat [0, 1] [[0, 3], [3, 6], [6, 9]]) =
       Inr (Mat [[0, 1, 0, 3], [0, 1, 3, 6], [0, 1, 6, 9]])
   \<and> tensor_shape (Mat [[0, 1, 0, 3], [0, 1, 3, 6], [0, 1, 6, 9]]) = [3, 2 * 2]"
proof -
  have h: "[[0, 3], [3, 6], [6, 9]] \<noteq> ([] :: real list list)" "length [0, 1 :: real] = 2"
    "list_all (\<lambda>r. length r = 2) [[0, 3], [3, 6], [6, 9 :: real]]"
    by simp_all
  from fusion_disabled_concat [OF ex_feats(1) h, of real_arith PyNone] ex_feats(1) h
  show ?thesis by (simp add: bind_err_def)
qed

lemma forward_components_missing:
  "feats self = Some fn \<Longrightarrow> forward_components ar self user PyNone = Inl TypeError"
  by (simp add: forward_components_def bind_err_def)

text \<open>
  Claim C6. With feature fusion enabled, a call of \<^verbatim>\<open>forward\<close> that omits the
  features (\<^verbatim>\<open>None\<close>) always raises. When the ids are known the exception is the
  \<^verbatim>\<open>TypeError\<close> of \<^verbatim>\<open>torch.tensor(None, ...)\<close>, raised at line 94 before
  \<^verbatim>\<open>FeatureNet.forward\<close> and before the scoring layers, whatever the shapes of the
  layers are; nothing is put in the place of the missing features.
\<close>

theorem missing_features_fail_fast:
  assumes "feats self = Some fn"
  shows "forward_components ar self user PyNone = Inl TypeError
       \<and> isl (forward ar self user_id item_ids PyNone)
       \<and> (table_ok (user_dict self) (user_embedding self) (emb_dim self)
            \<and> table_ok (item_dict self) (item_embedding self) (emb_dim self)
            \<and> user_dict self user_id \<noteq> None
            \<and> known_items self item_ids \<and> item_ids \<noteq> [] \<longrightarrow>
          forward ar self user_id item_ids PyNone = Inl TypeError)"
proof -
  note fc = forward_components_missing [OF assms]
  have "isl (forward ar self user_id item_ids PyNone)"
    unfolding forward_def bind_err_def by (simp add: fc split: sum.splits)
  moreover have "forward ar self user_id item_ids PyNone = Inl TypeError"
    if ut: "table_ok (user_dict self) (user_embedding self) (emb_dim self)"
      and it: "table_ok (item_dict self) (item_embedding self) (emb_dim self)"
      and u: "user_dict self user_id \<noteq> None"
      and k: "known_items self item_ids" "item_ids \<noteq> []"
  proof -
    from u obtain ui where ui: "user_dict self user_id = Some ui"
      by blast
    with ut have "ui < length (user_embedding self)"
      by (simp add: table_ok_def)
    moreover have "bind_err (u_get_items self item_ids) (embedding1 (item_embedding self)) =
        Inr (item_rows self item_ids)"
      using get_items_ok [OF it k] by (simp add: get_items_def)
    ultimately show ?thesis
      unfolding forward_def
      by (simp add: u_get_user_def ui embedding0_def fc bind_err_def split: sum.splits)
  qed
  ultimately show ?thesis
    using fc by blast
qed

theorem missing_features_fail_fast_witness:
  "feats ex_net_f = Some (FeatureNet_init real_arith 2 1 ex_iv)
   \<and> table_ok (user_dict ex_net_f) (user_embedding ex_net_f) (emb_dim ex_net_f)
   \<and> table_ok (item_dict ex_net_f) (item_embedding ex_net_f) (emb_dim ex_net_f)
   \<and> user_dict ex_net_f ''u1'' \<noteq> None
   \<and> known_items ex_net_f [''a'', ''b''] \<and> [''a'', ''b''] \<noteq> []
   \<and> forward real_arith ex_net_f ''u1'' [''a'', ''b''] PyNone = Inl TypeError"
proof -
  note p = usernet_inv_parts(1,2) [OF ex_net_f_inv]
  have u: "user_dict ex_net_f ''u1'' \<noteq> None"
    by (simp add: ex_net_f_facts)
  from missing_features_fail_fast [OF ex_net_f_facts(1), of real_arith "[]" "''u1''"
      "[''a'', ''b'']"] p u ex_net_f_facts(1,3)
  show ?thesis by simp
qed

subsection \<open>Determinism and frame\<close>

lemma forward_reads:
  assumes "user_dict t = user_dict self" "item_dict t = item_dict self"
    and "feats t = feats self"
    and "user_embedding t = user_embedding self" "item_embedding t = item_embedding self"
    and "l1 t = l1 self" "l2 t = l2 self"
  shows "forward ar t user_id item_ids features = forward ar self user_id item_ids features"
  using assms
  by (simp add: forward_def u_get_user_def u_get_items_def forward_components_def
      attention_weights_def)

text \<open>
  Claim C8. A call of \<^verbatim>\<open>forward\<close> draws nothing from the random generator: the
  generator is where it was after the call, the value returned does not depend on the
  generator, and a second call with the same arguments, run in the state that the first
  call has left, returns the same value. The same holds for \<^verbatim>\<open>score\<close>, whose value
  does not depend on the module object either. The value of \<^verbatim>\<open>forward\<close> depends on
  the module object only through the dictionaries, the embedding tables, the feature
  network and the two layers.
\<close>

theorem inference_is_deterministic:
  "fst (forward_m ar user_id item_ids features
          (snd (forward_m ar user_id item_ids features s))) =
   fst (forward_m ar user_id item_ids features s)
   \<and> fst (score_m ar u Is (snd (score_m ar u Is s))) = fst (score_m ar u Is s)
   \<and> fst (score_m ar u Is s') = fst (score_m ar u Is s)
   \<and> rng_pos (snd (forward_m ar user_id item_ids features s)) = rng_pos s
   \<and> rng (snd (forward_m ar user_id item_ids features s)) = rng s
   \<and> rng_pos (snd (score_m ar u Is s)) = rng_pos s
   \<and> rng (snd (score_m ar u Is s)) = rng s
   \<and> (user_dict (obj s') = user_dict (obj s) \<and> item_dict (obj s') = item_dict (obj s)
        \<and> feats (obj s') = feats (obj s)
        \<and> user_embedding (obj s') = user_embedding (obj s)
        \<and> item_embedding (obj s') = item_embedding (obj s)
        \<and> l1 (obj s') = l1 (obj s) \<and> l2 (obj s') = l2 (obj s) \<longrightarrow>
      fst (forward_m ar user_id item_ids features s') =
      fst (forward_m ar user_id item_ids features s))"
proof -
  have "fst (forward_m ar user_id item_ids features s') =
      fst (forward_m ar user_id item_ids features s)"
    if "user_dict (obj s') = user_dict (obj s)" "item_dict (obj s') = item_dict (obj s)"
      "feats (obj s') = feats (obj s)" "user_embedding (obj s') = user_embedding (obj s)"
      "item_embedding (obj s') = item_embedding (obj s)"
      "l1 (obj s') = l1 (obj s)" "l2 (obj s') = l2 (obj s)"
    using forward_reads [OF that] by (simp add: forward_m_run)
  then show ?thesis
    by (simp add: forward_m_run score_m_run)
qed

theorem inference_is_deterministic_witness:
  "rng_pos \<lparr>obj = ex_net\<lparr>emb_dim := 5\<rparr>, rng = (\<lambda>n. real n), rng_pos = 7\<rparr> \<noteq>
     rng_pos \<lparr>obj = ex_net, rng = (\<lambda>n. 0), rng_pos = 0\<rparr>
   \<and> fst (forward_m real_arith ''u1'' [''b''] PyNone
          \<lparr>obj = ex_net\<lparr>emb_dim := 5\<rparr>, rng = (\<lambda>n. real n), rng_pos = 7\<rparr>) =
       fst (forward_m real_arith ''u1'' [''b''] PyNone
          \<lparr>obj = ex_net, rng = (\<lambda>n. 0), rng_pos = 0\<rparr>)
   \<and> fst (forward_m real_arith ''u1'' [''b''] PyNone
          (snd (forward_m real_arith ''u1'' [''b''] PyNone
             \<lparr>obj = ex_net, rng = (\<lambda>n. 0), rng_pos = 0\<rparr>))) =
       fst (forward_m real_arith ''u1'' [''b''] PyNone
          \<lparr>obj = ex_net, rng = (\<lambda>n. 0), rng_pos = 0\<rparr>)
   \<and> rng_pos (snd (forward_m real_arith ''u1'' [''b''] PyNone
          \<lparr>obj = ex_net, rng = (\<lambda>n. 0), rng_pos = 0\<rparr>)) = 0"
  using inference_is_deterministic [of real_arith "''u1''" "[''b'']" PyNone
      "\<lparr>obj = ex_net, rng = (\<lambda>n. 0), rng_pos = 0\<rparr>" "[]" "Matrix 0 []"
      "\<lparr>obj = ex_net\<lparr>emb_dim := 5\<rparr>, rng = (\<lambda>n. real n), rng_pos = 7\<rparr>"]
  by simp

text \<open>
  Claim C9. A call of \<^verbatim>\<open>forward\<close> or of \<^verbatim>\<open>get_items\<close> leaves the state as it was:
  no statement of either method assigns to the module object, so that the embedding
  tables, the dictionaries, the layers and the feature network are the same after the
  call, which only produces its result.
\<close>

theorem calls_leave_model_unchanged:
  "snd (forward_m ar user_id item_ids features s) = s
   \<and> snd (get_items_m item_ids s) = s
   \<and> user_embedding (obj (snd (forward_m ar user_id item_ids features s))) =
       user_embedding (obj s)
   \<and> item_embedding (obj (snd (forward_m ar user_id item_ids features s))) =
       item_embedding (obj s)
   \<and> user_dict (obj (snd (forward_m ar user_id item_ids features s))) = user_dict (obj s)
   \<and> item_dict (obj (snd (forward_m ar user_id item_ids features s))) = item_dict (obj s)
   \<and> l1 (obj (snd (forward_m ar user_id item_ids features s))) = l1 (obj s)
   \<and> l2 (obj (snd (forward_m ar user_id item_ids features s))) = l2 (obj s)
   \<and> feats (obj (snd (forward_m ar user_id item_ids features s))) = feats (obj s)
   \<and> user_embedding (obj (snd (get_items_m item_ids s))) = user_embedding (obj s)
   \<and> item_embedding (obj (snd (get_items_m item_ids s))) = item_embedding (obj s)
   \<and> fst (forward_m ar user_id item_ids features s) =
       forward ar (obj s) user_id item_ids features
   \<and> fst (get_items_m item_ids s) = get_items (obj s) item_ids"
  by (simp add: forward_m_run get_items_m_run)

theorem calls_leave_model_unchanged_witness:
  "snd (forward_m real_arith ''u1'' [''b''] PyNone
          \<lparr>obj = ex_net, rng = (\<lambda>n. 0), rng_pos = 0\<rparr>) =
     \<lparr>obj = ex_net, rng = (\<lambda>n. 0), rng_pos = 0\<rparr>
   \<and> snd (get_items_m [''b''] \<lparr>obj = ex_net, rng = (\<lambda>n. 0 :: real), rng_pos = 0\<rparr>) =
     \<lparr>obj = ex_net, rng = (\<lambda>n. 0), rng_pos = 0\<rparr>
   \<and> fst (get_items_m [''b''] \<lparr>obj = ex_net, rng = (\<lambda>n. 0 :: real), rng_pos = 0\<rparr>) =
     Inr [[3, 6]]"
  using calls_leave_model_unchanged [of real_arith "''u1''" "[''b'']" PyNone
      "\<lparr>obj = ex_net, rng = (\<lambda>n. 0), rng_pos = 0\<rparr>"]
  by (simp add: ex_get_items)

end
